theory Spec2Isabelle
  imports Complex_Main
begin

section \<open>Label export: data model\<close>

text \<open>
  The repository exports label sheets as DXF drawings (\<^verbatim>\<open>lib/dxf\<close>) and PDF documents
  (\<^verbatim>\<open>lib/pdf\<close>) and traces bitmaps to polylines (\<^verbatim>\<open>lib/trace\<close>), under the names by which
  the server imports the modules. \<^verbatim>\<open>src/benchmark.ts\<close> holds, one after the other, the
  benchmark script, the server, \<^verbatim>\<open>lib/dxf\<close> (from line 356) and \<^verbatim>\<open>lib/pdf\<close> (from line 661);
  \<^verbatim>\<open>src/unnamed/part_000\<close> is \<^verbatim>\<open>lib/trace\<close>.

  Conventions of the embedding.
  \<^item> A JavaScript \<^verbatim>\<open>number\<close> that measures something (millimetres, coordinates) is a
    \<^typ>\<open>real\<close>. Where the rounding of double arithmetic bears on a statement (the text
    fitting, the absence of overlaps) the function takes the rounding as a parameter
    \<open>rnd\<close>, which stands for the rounding to the nearest double, and every arithmetic
    operation of the source is rounded by it: \<^verbatim>\<open>a + b\<close> is \<open>rnd (a + b)\<close>, the literal
    \<^verbatim>\<open>0.55\<close> is \<open>rnd 0.55\<close>. Comparisons, \<^verbatim>\<open>Math.max\<close> and assignments do not round.
    Overflow to \<^verbatim>\<open>Infinity\<close> is not modelled: the statements on these functions bound
    their inputs. Elsewhere (the packer of the counts and page numbers, the hole
    patterns, the curve sampling) arithmetic is exact. Where the source divides by zero
    the model has an explicit branch.
  \<^item> A \<^verbatim>\<open>number\<close> that counts something (\<^verbatim>\<open>labelQuantity\<close>, \<^verbatim>\<open>noOfHoles\<close>,
    \<^verbatim>\<open>segments\<close>) is an \<^typ>\<open>int\<close>; a loop \<^verbatim>\<open>for (i = 0; i < n; i++)\<close> runs
    \<open>max 0 n\<close> times.
  \<^item> \<^verbatim>\<open>a || b\<close> on a number \<open>a\<close> is \<open>if a = 0 then b else a\<close>; on a string it is
    \<open>if a = [] then b else a\<close>; on an optional number it also takes \<open>b\<close> when \<open>a\<close> is
    absent.
  \<^item> A string is a \<^typ>\<open>string\<close>, one \<^typ>\<open>char\<close> per UTF-16 code unit below \<^verbatim>\<open>0x100\<close>.
  \<^item> \<^verbatim>\<open>array.push(v)\<close> is \<open>xs @ [v]\<close>: lists are in the order of the source's arrays.
  \<^item> \<^verbatim>\<open>console.warn\<close> (the advisory message for an oversized label) has no effect on
    what is returned and is left out.
\<close>

datatype HoleType = circle | square

text \<open>\<^verbatim>\<open>LabelLine\<close>; its field \<^verbatim>\<open>text\<close> is \<open>lineText\<close> here, and the fields
  \<^verbatim>\<open>spacingTopMm\<close> and \<^verbatim>\<open>spacingLeftMm\<close>, which no code reads, are left out.\<close>

record LabelLine =
  lineText :: string
  textSizeMm :: real

record LabelSetup =
  name :: "string option"
  labelLengthMm :: real
  labelHeightMm :: real
  labelThicknessMm :: real
  labelColourBackground :: string
  textColour :: string
  labelQuantity :: int
  style :: string
  noOfHoles :: int
  holeSizeMm :: real
  holeDistanceMm :: real
  holeType :: "HoleType option"
  holeLengthMm :: "real option"
  holeHeightMm :: "real option"
  lines :: "LabelLine list"

record SheetConfig =
  width :: real
  height :: real
  margin :: real
  gap :: real

text \<open>\<^verbatim>\<open>PlacedLabel\<close> of \<^verbatim>\<open>lib/dxf\<close>; its fields \<^verbatim>\<open>setup\<close>, \<^verbatim>\<open>x\<close>, \<^verbatim>\<open>y\<close>,
  \<^verbatim>\<open>quantity\<close> carry the prefix \<open>pl_\<close> here.\<close>

record PlacedLabel =
  pl_setup :: LabelSetup
  pl_x :: real
  pl_y :: real
  pl_quantity :: int

record DxfSheet =
  pageNumber :: int
  labels :: "PlacedLabel list"

definition DEFAULT_SHEET :: SheetConfig where
  "DEFAULT_SHEET = \<lparr>width = 600, height = 300, margin = 0, gap = 0\<rparr>"


section \<open>Sheet packing (\<^verbatim>\<open>arrangeLabelsOnSheets\<close> of \<^verbatim>\<open>lib/dxf\<close>)\<close>

subsection \<open>Expansion by quantity\<close>

text \<open>The inner loop \<^verbatim>\<open>for (let i = 0; i < qty; i++) allLabels.push(setup)\<close>.\<close>

function pushCopies :: "LabelSetup \<Rightarrow> int \<Rightarrow> int \<Rightarrow> LabelSetup list \<Rightarrow> LabelSetup list" where
  "pushCopies setup qty i allLabels =
     (if i < qty then pushCopies setup qty (i + 1) (allLabels @ [setup]) else allLabels)"
  by pat_completeness auto
termination
  by (relation "measure (\<lambda>(setup, qty, i, allLabels). nat (qty - i))") auto

declare pushCopies.simps [simp del]

text \<open>The outer loop \<^verbatim>\<open>for (const setup of setups)\<close> with
  \<^verbatim>\<open>const qty = setup.labelQuantity || 1\<close>.\<close>

fun expandSetups :: "LabelSetup list \<Rightarrow> LabelSetup list \<Rightarrow> LabelSetup list" where
  "expandSetups [] allLabels = allLabels"
| "expandSetups (setup # rest) allLabels =
     (let qty = (if labelQuantity setup = 0 then 1 else labelQuantity setup)
      in expandSetups rest (pushCopies setup qty 0 allLabels))"

subsection \<open>One iteration of the placement loop\<close>

text \<open>The body of the loop is four steps, one after the other; each is a function here,
  under a name of this theory.\<close>

text \<open>The loop state: \<^verbatim>\<open>sheets\<close>, \<^verbatim>\<open>currentSheet\<close>, \<^verbatim>\<open>currentX\<close>, \<^verbatim>\<open>currentY\<close>,
  \<^verbatim>\<open>rowHeight\<close>. A sheet is a \<^typ>\<open>DxfSheet\<close> in \<^verbatim>\<open>lib/dxf\<close> and a list of placements in
  \<^verbatim>\<open>lib/pdf\<close>; the first two steps of the loop body read the same in both files and do
  not touch the sheets.\<close>

type_synonym 's PackState = "'s list \<times> 's \<times> real \<times> real \<times> real"

text \<open>\<^verbatim>\<open>if (rowHeight === 0) { rowHeight = labelHeight; }\<close>\<close>

definition seedRow :: "LabelSetup \<Rightarrow> 's PackState \<Rightarrow> 's PackState" where
  "seedRow label = (\<lambda>(sheets, currentSheet, currentX, currentY, rowHeight).
     (sheets, currentSheet, currentX, currentY,
      if rowHeight = 0 then labelHeightMm label else rowHeight))"

text \<open>\<^verbatim>\<open>if (currentX + labelWidth > sheet.width - sheet.margin) { currentX = sheet.margin;
  currentY -= rowHeight + sheet.gap; rowHeight = labelHeight; }\<close>\<close>

definition wrapRow :: "SheetConfig \<Rightarrow> LabelSetup \<Rightarrow> 's PackState \<Rightarrow> 's PackState" where
  "wrapRow sheet label = (\<lambda>(sheets, currentSheet, currentX, currentY, rowHeight).
     if currentX + labelLengthMm label > width sheet - margin sheet
     then (sheets, currentSheet, margin sheet, currentY - (rowHeight + gap sheet),
           labelHeightMm label)
     else (sheets, currentSheet, currentX, currentY, rowHeight))"

text \<open>\<^verbatim>\<open>if (currentY - labelHeight < sheet.margin) { if (currentSheet.labels.length > 0)
  sheets.push(currentSheet); currentSheet = { pageNumber: sheets.length + 1, labels: [] };
  currentX = sheet.margin; currentY = sheet.height - sheet.margin; rowHeight = labelHeight; }\<close>\<close>

definition overflowSheet :: "SheetConfig \<Rightarrow> LabelSetup \<Rightarrow> DxfSheet PackState \<Rightarrow> DxfSheet PackState" where
  "overflowSheet sheet label = (\<lambda>(sheets, currentSheet, currentX, currentY, rowHeight).
     if currentY - labelHeightMm label < margin sheet
     then (let sheets' = (if length (labels currentSheet) > 0 then sheets @ [currentSheet]
                          else sheets)
           in (sheets', \<lparr>pageNumber = int (length sheets') + 1, labels = []\<rparr>,
               margin sheet, height sheet - margin sheet, labelHeightMm label))
     else (sheets, currentSheet, currentX, currentY, rowHeight))"

text \<open>\<^verbatim>\<open>currentSheet.labels.push({ setup: label, x: currentX, y: currentY - labelHeight,
  quantity: 1 }); rowHeight = Math.max(rowHeight, labelHeight);
  currentX += labelWidth + sheet.gap;\<close>\<close>

definition pushPlacement :: "SheetConfig \<Rightarrow> LabelSetup \<Rightarrow> DxfSheet PackState \<Rightarrow> DxfSheet PackState" where
  "pushPlacement sheet label = (\<lambda>(sheets, currentSheet, currentX, currentY, rowHeight).
     (sheets,
      currentSheet\<lparr>labels := labels currentSheet @
        [\<lparr>pl_setup = label, pl_x = currentX, pl_y = currentY - labelHeightMm label,
          pl_quantity = 1\<rparr>]\<rparr>,
      currentX + (labelLengthMm label + gap sheet),
      currentY,
      max rowHeight (labelHeightMm label)))"

definition placeLabel :: "SheetConfig \<Rightarrow> LabelSetup \<Rightarrow> DxfSheet PackState \<Rightarrow> DxfSheet PackState" where
  "placeLabel sheet label st =
     pushPlacement sheet label (overflowSheet sheet label (wrapRow sheet label (seedRow label st)))"

subsection \<open>The packer\<close>

text \<open>\<^verbatim>\<open>for (const label of allLabels) { ... }\<close>\<close>

fun placeAll :: "SheetConfig \<Rightarrow> LabelSetup list \<Rightarrow> DxfSheet PackState \<Rightarrow> DxfSheet PackState" where
  "placeAll sheet [] st = st"
| "placeAll sheet (label # rest) st = placeAll sheet rest (placeLabel sheet label st)"

text \<open>The state before the loop, and the final
  \<^verbatim>\<open>if (currentSheet.labels.length > 0) sheets.push(currentSheet); return sheets;\<close>\<close>

definition initialState :: "SheetConfig \<Rightarrow> DxfSheet PackState" where
  "initialState sheet =
     ([], \<lparr>pageNumber = 1, labels = []\<rparr>, margin sheet, height sheet - margin sheet, 0)"

definition flushSheets :: "DxfSheet PackState \<Rightarrow> DxfSheet list" where
  "flushSheets = (\<lambda>(sheets, currentSheet, currentX, currentY, rowHeight).
     if length (labels currentSheet) > 0 then sheets @ [currentSheet] else sheets)"

definition arrangeLabelsOnSheets :: "LabelSetup list \<Rightarrow> SheetConfig \<Rightarrow> DxfSheet list" where
  "arrangeLabelsOnSheets setups sheet =
     flushSheets (placeAll sheet (expandSetups setups []) (initialState sheet))"

text \<open>The number of placements on a sequence of sheets
  (\<^verbatim>\<open>sheets.reduce((sum, s) => sum + s.labels.length, 0)\<close> of \<^verbatim>\<open>getSheetSummary\<close>).\<close>

definition totalLabels :: "DxfSheet list \<Rightarrow> nat" where
  "totalLabels sheets = sum_list (map (\<lambda>s. length (labels s)) sheets)"


subsection \<open>The packer in double arithmetic\<close>

text \<open>
  The same loop with its arithmetic rounded: every sum and difference the source
  computes is passed through \<open>rnd\<close>, the rounding to the nearest double. The expansion
  by quantity, the first step of the loop body (\<open>seedRow\<close>) and the final push
  (\<open>flushSheets\<close>) compute nothing on measurements and are those above.
\<close>

text \<open>\<^verbatim>\<open>if (currentX + labelWidth > sheet.width - sheet.margin) { currentX = sheet.margin;
  currentY -= rowHeight + sheet.gap; rowHeight = labelHeight; }\<close>\<close>

definition wrapRow_rnd ::
    "(real \<Rightarrow> real) \<Rightarrow> SheetConfig \<Rightarrow> LabelSetup \<Rightarrow> 's PackState \<Rightarrow> 's PackState" where
  "wrapRow_rnd rnd sheet label = (\<lambda>(sheets, currentSheet, currentX, currentY, rowHeight).
     if rnd (currentX + labelLengthMm label) > rnd (width sheet - margin sheet)
     then (sheets, currentSheet, margin sheet, rnd (currentY - rnd (rowHeight + gap sheet)),
           labelHeightMm label)
     else (sheets, currentSheet, currentX, currentY, rowHeight))"

text \<open>\<^verbatim>\<open>if (currentY - labelHeight < sheet.margin) { if (currentSheet.labels.length > 0)
  sheets.push(currentSheet); currentSheet = { pageNumber: sheets.length + 1, labels: [] };
  currentX = sheet.margin; currentY = sheet.height - sheet.margin; rowHeight = labelHeight; }\<close>\<close>

definition overflowSheet_rnd ::
    "(real \<Rightarrow> real) \<Rightarrow> SheetConfig \<Rightarrow> LabelSetup \<Rightarrow> DxfSheet PackState \<Rightarrow> DxfSheet PackState" where
  "overflowSheet_rnd rnd sheet label = (\<lambda>(sheets, currentSheet, currentX, currentY, rowHeight).
     if rnd (currentY - labelHeightMm label) < margin sheet
     then (let sheets' = (if length (labels currentSheet) > 0 then sheets @ [currentSheet]
                          else sheets)
           in (sheets', \<lparr>pageNumber = int (length sheets') + 1, labels = []\<rparr>,
               margin sheet, rnd (height sheet - margin sheet), labelHeightMm label))
     else (sheets, currentSheet, currentX, currentY, rowHeight))"

text \<open>\<^verbatim>\<open>currentSheet.labels.push({ setup: label, x: currentX, y: currentY - labelHeight,
  quantity: 1 }); rowHeight = Math.max(rowHeight, labelHeight);
  currentX += labelWidth + sheet.gap;\<close>\<close>

definition pushPlacement_rnd ::
    "(real \<Rightarrow> real) \<Rightarrow> SheetConfig \<Rightarrow> LabelSetup \<Rightarrow> DxfSheet PackState \<Rightarrow> DxfSheet PackState" where
  "pushPlacement_rnd rnd sheet label = (\<lambda>(sheets, currentSheet, currentX, currentY, rowHeight).
     (sheets,
      currentSheet\<lparr>labels := labels currentSheet @
        [\<lparr>pl_setup = label, pl_x = currentX, pl_y = rnd (currentY - labelHeightMm label),
          pl_quantity = 1\<rparr>]\<rparr>,
      rnd (currentX + rnd (labelLengthMm label + gap sheet)),
      currentY,
      max rowHeight (labelHeightMm label)))"

definition placeLabel_rnd ::
    "(real \<Rightarrow> real) \<Rightarrow> SheetConfig \<Rightarrow> LabelSetup \<Rightarrow> DxfSheet PackState \<Rightarrow> DxfSheet PackState" where
  "placeLabel_rnd rnd sheet label st =
     pushPlacement_rnd rnd sheet label
       (overflowSheet_rnd rnd sheet label (wrapRow_rnd rnd sheet label (seedRow label st)))"

fun placeAll_rnd ::
    "(real \<Rightarrow> real) \<Rightarrow> SheetConfig \<Rightarrow> LabelSetup list \<Rightarrow> DxfSheet PackState \<Rightarrow> DxfSheet PackState" where
  "placeAll_rnd rnd sheet [] st = st"
| "placeAll_rnd rnd sheet (label # rest) st =
     placeAll_rnd rnd sheet rest (placeLabel_rnd rnd sheet label st)"

text \<open>\<^verbatim>\<open>let currentX = sheet.margin; let currentY = sheet.height - sheet.margin;
  let rowHeight = 0;\<close>\<close>

definition initialState_rnd :: "(real \<Rightarrow> real) \<Rightarrow> SheetConfig \<Rightarrow> DxfSheet PackState" where
  "initialState_rnd rnd sheet =
     ([], \<lparr>pageNumber = 1, labels = []\<rparr>, margin sheet, rnd (height sheet - margin sheet), 0)"

definition arrangeLabelsOnSheets_rnd ::
    "(real \<Rightarrow> real) \<Rightarrow> LabelSetup list \<Rightarrow> SheetConfig \<Rightarrow> DxfSheet list" where
  "arrangeLabelsOnSheets_rnd rnd setups sheet =
     flushSheets (placeAll_rnd rnd sheet (expandSetups setups []) (initialState_rnd rnd sheet))"


section \<open>Sheet packing (\<^verbatim>\<open>arrangeLabelsOnSheets\<close> of \<^verbatim>\<open>lib/pdf\<close>)\<close>

text \<open>\<^verbatim>\<open>lib/pdf\<close> has its own copy of the packer. Its \<^verbatim>\<open>PlacedLabel\<close> has no
  \<^verbatim>\<open>quantity\<close> (fields with the prefix \<open>pp_\<close> here), and a sheet is the list of its
  placements, with no page number. The expansion by quantity reads as in \<^verbatim>\<open>lib/dxf\<close>.\<close>

record PdfPlacedLabel =
  pp_setup :: LabelSetup
  pp_x :: real
  pp_y :: real

text \<open>\<^verbatim>\<open>if (currentY - labelHeight < sheet.margin) { if (currentSheet.length > 0)
  sheets.push(currentSheet); currentSheet = []; currentX = sheet.margin;
  currentY = sheet.height - sheet.margin; rowHeight = labelHeight; }\<close>\<close>

definition overflowSheet_pdf ::
    "SheetConfig \<Rightarrow> LabelSetup \<Rightarrow> PdfPlacedLabel list PackState \<Rightarrow> PdfPlacedLabel list PackState" where
  "overflowSheet_pdf sheet label = (\<lambda>(sheets, currentSheet, currentX, currentY, rowHeight).
     if currentY - labelHeightMm label < margin sheet
     then ((if length currentSheet > 0 then sheets @ [currentSheet] else sheets), [],
           margin sheet, height sheet - margin sheet, labelHeightMm label)
     else (sheets, currentSheet, currentX, currentY, rowHeight))"

text \<open>\<^verbatim>\<open>currentSheet.push({ setup: label, x: currentX, y: currentY - labelHeight });
  rowHeight = Math.max(rowHeight, labelHeight); currentX += labelWidth + sheet.gap;\<close>\<close>

definition pushPlacement_pdf ::
    "SheetConfig \<Rightarrow> LabelSetup \<Rightarrow> PdfPlacedLabel list PackState \<Rightarrow> PdfPlacedLabel list PackState" where
  "pushPlacement_pdf sheet label = (\<lambda>(sheets, currentSheet, currentX, currentY, rowHeight).
     (sheets,
      currentSheet @ [\<lparr>pp_setup = label, pp_x = currentX, pp_y = currentY - labelHeightMm label\<rparr>],
      currentX + (labelLengthMm label + gap sheet),
      currentY,
      max rowHeight (labelHeightMm label)))"

definition placeLabel_pdf ::
    "SheetConfig \<Rightarrow> LabelSetup \<Rightarrow> PdfPlacedLabel list PackState \<Rightarrow> PdfPlacedLabel list PackState" where
  "placeLabel_pdf sheet label st =
     pushPlacement_pdf sheet label
       (overflowSheet_pdf sheet label (wrapRow sheet label (seedRow label st)))"

fun placeAll_pdf ::
    "SheetConfig \<Rightarrow> LabelSetup list \<Rightarrow> PdfPlacedLabel list PackState \<Rightarrow> PdfPlacedLabel list PackState" where
  "placeAll_pdf sheet [] st = st"
| "placeAll_pdf sheet (label # rest) st = placeAll_pdf sheet rest (placeLabel_pdf sheet label st)"

definition arrangeLabelsOnSheets_pdf ::
    "LabelSetup list \<Rightarrow> SheetConfig \<Rightarrow> PdfPlacedLabel list list" where
  "arrangeLabelsOnSheets_pdf setups sheet =
     (case placeAll_pdf sheet (expandSetups setups [])
             ([], [], margin sheet, height sheet - margin sheet, 0) of
        (sheets, currentSheet, currentX, currentY, rowHeight) \<Rightarrow>
          if length currentSheet > 0 then sheets @ [currentSheet] else sheets)"


section \<open>Text fitting\<close>

subsection \<open>\<^verbatim>\<open>estimateTextWidth\<close> and \<^verbatim>\<open>calculateFitTextHeight\<close> of \<^verbatim>\<open>lib/dxf\<close>\<close>

text \<open>
  The two functions in double arithmetic: \<open>rnd\<close> is the rounding to the nearest double,
  applied to the literal \<^verbatim>\<open>0.55\<close> and to the result of every operation.
  \<^verbatim>\<open>const avgCharWidthRatio = 0.55; return text.length * textHeight * avgCharWidthRatio;\<close>
\<close>

definition estimateTextWidth :: "(real \<Rightarrow> real) \<Rightarrow> string \<Rightarrow> real \<Rightarrow> real" where
  "estimateTextWidth rnd txt textHeight =
     (let avgCharWidthRatio = rnd 0.55
      in rnd (rnd (real (length txt) * textHeight) * avgCharWidthRatio))"

text \<open>
  \<^verbatim>\<open>const availableWidth = maxWidth - (padding * 2);
  const estimatedWidth = estimateTextWidth(text, desiredHeight);
  if (estimatedWidth <= availableWidth) return desiredHeight;
  const scaleFactor = availableWidth / estimatedWidth;
  const newHeight = desiredHeight * scaleFactor;
  return Math.max(0.5, newHeight);\<close>

  The result is \<open>None\<close> where JavaScript returns \<^verbatim>\<open>NaN\<close>. The division is by zero where
  \<^verbatim>\<open>estimatedWidth\<close> is \<^verbatim>\<open>0\<close> or \<^verbatim>\<open>-0\<close>; the branch is reached with
  \<^verbatim>\<open>availableWidth < 0\<close> only. The zero has the sign of \<^verbatim>\<open>desiredHeight\<close> (the text length
  and the ratio are not negative), so for a \<^verbatim>\<open>desiredHeight\<close> other than zero
  \<^verbatim>\<open>scaleFactor\<close> is the infinity of the opposite sign, \<^verbatim>\<open>newHeight\<close> is \<^verbatim>\<open>-Infinity\<close> and
  \<^verbatim>\<open>Math.max(0.5, -Infinity)\<close> is \<^verbatim>\<open>0.5\<close>. For a \<^verbatim>\<open>desiredHeight\<close> of zero \<^verbatim>\<open>newHeight\<close> is
  zero times an infinity, \<^verbatim>\<open>NaN\<close>, and so is the result.
\<close>

definition calculateFitTextHeight ::
    "(real \<Rightarrow> real) \<Rightarrow> string \<Rightarrow> real \<Rightarrow> real \<Rightarrow> real \<Rightarrow> real option" where
  "calculateFitTextHeight rnd txt maxWidth desiredHeight padding =
     (let availableWidth = rnd (maxWidth - rnd (padding * 2));
          estimatedWidth = estimateTextWidth rnd txt desiredHeight
      in if estimatedWidth \<le> availableWidth then Some desiredHeight
         else if estimatedWidth = 0 then (if desiredHeight = 0 then None else Some 0.5)
         else (let scaleFactor = rnd (availableWidth / estimatedWidth);
                   newHeight = rnd (desiredHeight * scaleFactor)
               in Some (max 0.5 newHeight)))"

subsection \<open>The two call sites\<close>

text \<open>\<^verbatim>\<open>\s\<close> and \<^verbatim>\<open>String.prototype.trim\<close> on code units below \<^verbatim>\<open>0x100\<close>: tab, line feed,
  vertical tab, form feed, carriage return, space and no-break space.\<close>

definition isWhiteSpace :: "char \<Rightarrow> bool" where
  "isWhiteSpace c = (c \<in> set [CHR 0x09, CHR 0x0A, CHR 0x0B, CHR 0x0C, CHR 0x0D, CHR 0x20, CHR 0xA0])"

definition trim :: "string \<Rightarrow> string" where
  "trim s = rev (dropWhile isWhiteSpace (rev (dropWhile isWhiteSpace s)))"

text \<open>\<^verbatim>\<open>setup.lines.filter(line => line.text && line.text.trim() !== "")\<close>\<close>

definition validLine :: "LabelLine \<Rightarrow> bool" where
  "validLine line = (lineText line \<noteq> [] \<and> trim (lineText line) \<noteq> [])"

text \<open>\<^verbatim>\<open>generateSheetDxf\<close>: \<^verbatim>\<open>const desiredHeight = line.textSizeMm || 2; const fitHeight =
  calculateFitTextHeight(line.text, width, desiredHeight, 2);\<close> where \<^verbatim>\<open>width\<close> is the label's
  length.\<close>

definition dxfLineHeight :: "(real \<Rightarrow> real) \<Rightarrow> real \<Rightarrow> LabelLine \<Rightarrow> real option" where
  "dxfLineHeight rnd labelWidth line =
     (let desiredHeight = (if textSizeMm line = 0 then 2 else textSizeMm line)
      in calculateFitTextHeight rnd (lineText line) labelWidth desiredHeight 2)"

text \<open>
  \<^verbatim>\<open>generateSheetPdf\<close>, the body of \<^verbatim>\<open>for (const line of validLines)\<close>:
  \<^verbatim>\<open>let textHeight = line.textSizeMm || 2;
  const estimatedWidth = line.text.length * textHeight * 0.5;
  if (estimatedWidth > width - padding * 2) {
    textHeight = (width - padding * 2) / (line.text.length * 0.5);
    textHeight = Math.max(0.5, textHeight); }\<close>
  with \<^verbatim>\<open>padding = 2\<close>. On an empty text the division is by zero with a negative numerator:
  \<^verbatim>\<open>-Infinity\<close>, and \<^verbatim>\<open>Math.max\<close> gives \<^verbatim>\<open>0.5\<close>.
\<close>

definition pdfLineHeight :: "(real \<Rightarrow> real) \<Rightarrow> real \<Rightarrow> LabelLine \<Rightarrow> real" where
  "pdfLineHeight rnd labelWidth line =
     (let padding = 2;
          textHeight = (if textSizeMm line = 0 then 2 else textSizeMm line);
          estimatedWidth = rnd (rnd (real (length (lineText line)) * textHeight) * 0.5)
      in if estimatedWidth > rnd (labelWidth - rnd (padding * 2))
         then (if length (lineText line) = 0 then 0.5
               else max 0.5 (rnd (rnd (labelWidth - rnd (padding * 2)) /
                                  rnd (real (length (lineText line)) * 0.5))))
         else textHeight)"


section \<open>Hole patterns (\<^verbatim>\<open>generateSheetDxf\<close> and \<^verbatim>\<open>generateSheetPdf\<close>)\<close>

text \<open>
  Both functions hold the same block, character for character up to the drawing calls
  inside \<^verbatim>\<open>drawHole\<close>. The model lists the arguments \<open>(cx, cy)\<close> of the calls of
  \<^verbatim>\<open>drawHole\<close> in order, for a label placed at \<open>(x, y)\<close>.
\<close>








section \<open>Path tracing (\<^verbatim>\<open>lib/trace\<close>)\<close>

subsection \<open>Values\<close>

text \<open>
  What a variable of type \<^verbatim>\<open>number\<close> can hold in the path code: a number, \<^verbatim>\<open>NaN\<close> (the
  result of \<^verbatim>\<open>Number\<close> on a token that is no number, and of arithmetic on a value that
  is no number) or \<^verbatim>\<open>undefined\<close> (an absent field, an array read past the end).
\<close>

datatype jsval = Num real | NaN | Undefined




text \<open>\<^verbatim>\<open>PathCommand\<close>; its fields carry the prefix \<open>cmd_\<close>, and an absent field is
  \<open>Undefined\<close>. \<open>command t\<close> is the object \<^verbatim>\<open>{ type }\<close>.\<close>

record PathCommand =
  cmd_type :: char
  cmd_x :: jsval
  cmd_y :: jsval
  cmd_x1 :: jsval
  cmd_y1 :: jsval
  cmd_x2 :: jsval
  cmd_y2 :: jsval

definition command :: "char \<Rightarrow> PathCommand" where
  "command t = \<lparr>cmd_type = t, cmd_x = Undefined, cmd_y = Undefined, cmd_x1 = Undefined,
     cmd_y1 = Undefined, cmd_x2 = Undefined, cmd_y2 = Undefined\<rparr>"

subsection \<open>\<^verbatim>\<open>parseSvgPath\<close>\<close>

text \<open>The letters of the regular expression
  \<^verbatim>\<open>/([MmLlHhVvCcSsQqTtAaZz])([^MmLlHhVvCcSsQqTtAaZz]*)/g\<close>.\<close>

definition isCommandLetter :: "char \<Rightarrow> bool" where
  "isCommandLetter c = (c \<in> set ''MmLlHhVvCcSsQqTtAaZz'')"

text \<open>\<^verbatim>\<open>.split(/[\s,]+/)\<close>: the pieces between maximal runs of separators, with an empty
  first or last piece where the string starts or ends with a separator (and one empty
  piece for the empty string). \<open>piece\<close> is the piece being read.\<close>

definition isSeparator :: "char \<Rightarrow> bool" where
  "isSeparator c = (isWhiteSpace c \<or> c = CHR '','')"

function splitArgs :: "string \<Rightarrow> string \<Rightarrow> string list" where
  "splitArgs piece [] = [piece]"
| "splitArgs piece (c # cs) =
     (if isSeparator c then piece # splitArgs [] (dropWhile isSeparator cs)
      else splitArgs (piece @ [c]) cs)"
  by pat_completeness auto
termination
  by (relation "measure (\<lambda>(piece, s). length s)")
    (auto simp: le_imp_less_Suc length_dropWhile_le)

text \<open>\<^verbatim>\<open>match[2].trim().split(/[\s,]+/).filter((s) => s !== "").map(Number)\<close>. \<open>toNumber\<close>
  stands for JavaScript's \<^verbatim>\<open>Number\<close> on strings, which the model does not fix.\<close>

definition parseArgs :: "(string \<Rightarrow> jsval) \<Rightarrow> string \<Rightarrow> jsval list" where
  "parseArgs toNumber run = map toNumber (filter (\<lambda>s. s \<noteq> []) (splitArgs [] (trim run)))"

text \<open>\<^verbatim>\<open>args[i]\<close>: \<^verbatim>\<open>undefined\<close> past the end.\<close>

definition arg :: "jsval list \<Rightarrow> nat \<Rightarrow> jsval" where
  "arg args i = (if i < length args then args ! i else Undefined)"

text \<open>\<^verbatim>\<open>for (let i = 0; i < args.length; i += 2) commands.push({ type, x: args[i],
  y: args[i + 1] })\<close>; the result is the list of the commands pushed.\<close>

function pointCommands :: "char \<Rightarrow> jsval list \<Rightarrow> nat \<Rightarrow> PathCommand list" where
  "pointCommands t args i =
     (if i < length args
      then (command t)\<lparr>cmd_x := arg args i, cmd_y := arg args (i + 1)\<rparr>
             # pointCommands t args (i + 2)
      else [])"
  by pat_completeness auto
termination
  by (relation "measure (\<lambda>(t, args, i). length args - i)") auto

declare pointCommands.simps [simp del]

text \<open>\<^verbatim>\<open>for (let i = 0; i < args.length; i += 6) commands.push({ type, x1: args[i],
  y1: args[i + 1], x2: args[i + 2], y2: args[i + 3], x: args[i + 4], y: args[i + 5] })\<close>\<close>

function curveCommands :: "char \<Rightarrow> jsval list \<Rightarrow> nat \<Rightarrow> PathCommand list" where
  "curveCommands t args i =
     (if i < length args
      then (command t)\<lparr>cmd_x1 := arg args i, cmd_y1 := arg args (i + 1),
              cmd_x2 := arg args (i + 2), cmd_y2 := arg args (i + 3),
              cmd_x := arg args (i + 4), cmd_y := arg args (i + 5)\<rparr>
             # curveCommands t args (i + 6)
      else [])"
  by pat_completeness auto
termination
  by (relation "measure (\<lambda>(t, args, i). length args - i)") auto

declare curveCommands.simps [simp del]

text \<open>The \<^verbatim>\<open>switch (type)\<close>: the commands one match pushes. The letters \<^verbatim>\<open>S s Q q T t A a\<close>
  have no case.\<close>

definition commandsFor :: "char \<Rightarrow> jsval list \<Rightarrow> PathCommand list" where
  "commandsFor t args =
     (if t \<in> set ''MmLl'' then pointCommands t args 0
      else if t \<in> set ''Hh'' then map (\<lambda>a. (command t)\<lparr>cmd_x := a\<rparr>) args
      else if t \<in> set ''Vv'' then map (\<lambda>a. (command t)\<lparr>cmd_y := a\<rparr>) args
      else if t \<in> set ''Cc'' then curveCommands t args 0
      else if t \<in> set ''Zz'' then [command t]
      else [])"

text \<open>\<^verbatim>\<open>while ((match = regex.exec(d)) !== null)\<close>: the next match starts at the next command
  letter and takes the longest run of other characters after it.\<close>

function parseSvgPath :: "(string \<Rightarrow> jsval) \<Rightarrow> string \<Rightarrow> PathCommand list" where
  "parseSvgPath toNumber [] = []"
| "parseSvgPath toNumber (c # cs) =
     (if isCommandLetter c
      then commandsFor c (parseArgs toNumber (takeWhile (\<lambda>ch. \<not> isCommandLetter ch) cs))
             @ parseSvgPath toNumber (dropWhile (\<lambda>ch. \<not> isCommandLetter ch) cs)
      else parseSvgPath toNumber cs)"
  by pat_completeness auto
termination
  by (relation "measure (\<lambda>(toNumber, d). length d)")
    (auto simp: le_imp_less_Suc length_dropWhile_le)

subsection \<open>\<^verbatim>\<open>sampleBezier\<close>\<close>






subsection \<open>\<^verbatim>\<open>svgPathToPolylinePoints\<close>\<close>








section \<open>Export files (\<^verbatim>\<open>generateDxfFiles\<close> and \<^verbatim>\<open>generatePdfFiles\<close>)\<close>

subsection \<open>Material groups\<close>








subsection \<open>File names\<close>









subsection \<open>The files\<close>




section \<open>Predicates and example inputs of the statements\<close>

subsection \<open>Double arithmetic\<close>

text \<open>
  The rounding of a real number to the nearest double (IEEE 754 binary64, the
  \<^verbatim>\<open>number\<close> of JavaScript), ties to even, on the normal range. For \<open>v \<noteq> 0\<close> with
  \<open>2\<^sup>e \<le> \<bar>v\<bar> < 2\<^sup>e\<^sup>+\<^sup>1\<close> the doubles around \<open>v\<close> are the multiples of \<open>2\<^sup>e\<^sup>-\<^sup>5\<^sup>2\<close>; \<open>v\<close> is
  rounded to the nearest of them and, halfway between two, to the one with the even
  multiplier. It is the instance of \<open>rnd\<close> in the examples. Below \<open>2\<^sup>-\<^sup>1\<^sup>0\<^sup>2\<^sup>2\<close> (where the
  doubles keep the spacing \<open>2\<^sup>-\<^sup>1\<^sup>0\<^sup>7\<^sup>4\<close>) and above the largest double (where the code has
  \<^verbatim>\<open>Infinity\<close>) it is not the rounding of the code; no example gets there.
\<close>

definition roundTiesEven :: "real \<Rightarrow> int" where
  "roundTiesEven y =
     (let f = \<lfloor>y\<rfloor>
      in if y - real_of_int f < 1 / 2 then f
         else if y - real_of_int f > 1 / 2 then f + 1
         else if even f then f else f + 1)"

definition roundToDouble :: "real \<Rightarrow> real" where
  "roundToDouble v =
     (if v = 0 then 0
      else (let e = \<lfloor>log 2 \<bar>v\<bar>\<rfloor>; ulp = 2 powi (e - 52)
            in ulp * real_of_int (roundTiesEven (v / ulp))))"

text \<open>
  What the statements use of the rounding. It is exact on the whole numbers up to
  \<open>2\<^sup>5\<^sup>3\<close>, all of which are doubles; and it keeps the sign: a double is nearest to no
  number of the other sign.
\<close>

definition exactOnWhole :: "(real \<Rightarrow> real) \<Rightarrow> bool" where
  "exactOnWhole rnd = (\<forall>v. v \<in> \<int> \<and> \<bar>v\<bar> \<le> 2 ^ 53 \<longrightarrow> rnd v = v)"

definition signPreserving :: "(real \<Rightarrow> real) \<Rightarrow> bool" where
  "signPreserving rnd = (\<forall>v. (0 \<le> v \<longrightarrow> 0 \<le> rnd v) \<and> (v \<le> 0 \<longrightarrow> rnd v \<le> 0))"

subsection \<open>Example inputs\<close>

text \<open>The label of the benchmark payload (\<^verbatim>\<open>testPayload\<close>: 20 by 7 mm, one line of text, no
  holes), with the quantity left open.\<close>

definition smallLabel :: "int \<Rightarrow> LabelSetup" where
  "smallLabel q = \<lparr>name = Some ''Small Label'', labelLengthMm = 20, labelHeightMm = 7,
     labelThicknessMm = 0.8, labelColourBackground = ''White'', textColour = ''Black'',
     labelQuantity = q, style = ''Adhesive'', noOfHoles = 0, holeSizeMm = 0,
     holeDistanceMm = 0, holeType = None, holeLengthMm = None, holeHeightMm = None,
     lines = [\<lparr>lineText = ''LBL'', textSizeMm = 3\<rparr>]\<rparr>"

text \<open>The placement \<^verbatim>\<open>{ setup, x, y, quantity: 1 }\<close>.\<close>

definition placedAt :: "LabelSetup \<Rightarrow> real \<Rightarrow> real \<Rightarrow> PlacedLabel" where
  "placedAt s x y = \<lparr>pl_setup = s, pl_x = x, pl_y = y, pl_quantity = 1\<rparr>"

subsection \<open>Packing\<close>

text \<open>The placements a loop state holds: those of the finished sheets and of the current
  one.\<close>

definition placedCount :: "DxfSheet PackState \<Rightarrow> nat" where
  "placedCount = (\<lambda>(sheets, currentSheet, currentX, currentY, rowHeight).
     totalLabels sheets + length (labels currentSheet))"

text \<open>No finished sheet of a loop state is empty.\<close>

definition sheetsNonEmpty :: "DxfSheet PackState \<Rightarrow> bool" where
  "sheetsNonEmpty = (\<lambda>(sheets, currentSheet, currentX, currentY, rowHeight).
     \<forall>sh\<in>set sheets. labels sh \<noteq> [])"

definition sheetsNonEmpty_pdf :: "PdfPlacedLabel list PackState \<Rightarrow> bool" where
  "sheetsNonEmpty_pdf = (\<lambda>(sheets, currentSheet, currentX, currentY, rowHeight).
     \<forall>sh\<in>set sheets. sh \<noteq> [])"

text \<open>The placement of \<^verbatim>\<open>lib/pdf\<close> that corresponds to one of \<^verbatim>\<open>lib/dxf\<close>, and the loop
  state of the PDF packer that corresponds to one of the DXF packer.\<close>

definition toPdf :: "PlacedLabel \<Rightarrow> PdfPlacedLabel" where
  "toPdf p = \<lparr>pp_setup = pl_setup p, pp_x = pl_x p, pp_y = pl_y p\<rparr>"

definition pdfState :: "DxfSheet PackState \<Rightarrow> PdfPlacedLabel list PackState" where
  "pdfState = (\<lambda>(sheets, currentSheet, currentX, currentY, rowHeight).
     (map (\<lambda>sh. map toPdf (labels sh)) sheets, map toPdf (labels currentSheet),
      currentX, currentY, rowHeight))"

text \<open>
  The footprints \<open>[x, x + labelLengthMm] \<times> [y, y + labelHeightMm]\<close> of two placements are
  separated along an axis: they share at most points of their edges.
\<close>

definition footprintsDisjoint :: "PlacedLabel \<Rightarrow> PlacedLabel \<Rightarrow> bool" where
  "footprintsDisjoint p q =
     (pl_x p + labelLengthMm (pl_setup p) \<le> pl_x q \<or>
      pl_x q + labelLengthMm (pl_setup q) \<le> pl_x p \<or>
      pl_y p + labelHeightMm (pl_setup p) \<le> pl_y q \<or>
      pl_y q + labelHeightMm (pl_setup q) \<le> pl_y p)"

definition noOverlap :: "PlacedLabel list \<Rightarrow> bool" where
  "noOverlap ps =
     (\<forall>i<length ps. \<forall>j<length ps. i \<noteq> j \<longrightarrow> footprintsDisjoint (ps ! i) (ps ! j))"

text \<open>
  The invariant of the placement loop behind the absence of overlaps. Every placement
  of the current sheet lies at or above the floor of the current row
  (\<open>currentY - rowHeight\<close>), and either at or above the top of the row (an earlier row) or
  to the left of the cursor (the current row).
\<close>

definition rowInv :: "real \<Rightarrow> real \<Rightarrow> real \<Rightarrow> PlacedLabel list \<Rightarrow> bool" where
  "rowInv currentX currentY rowHeight ps =
     (\<forall>p\<in>set ps. currentY - rowHeight \<le> pl_y p \<and>
        (currentY \<le> pl_y p \<or> pl_x p + labelLengthMm (pl_setup p) \<le> currentX))"

definition packInv :: "DxfSheet PackState \<Rightarrow> bool" where
  "packInv = (\<lambda>(sheets, currentSheet, currentX, currentY, rowHeight).
     (\<forall>sh\<in>set sheets. noOverlap (labels sh)) \<and> noOverlap (labels currentSheet) \<and>
     rowInv currentX currentY rowHeight (labels currentSheet))"

text \<open>
  The loop state after \<open>m + 1\<close> labels of 20 by 7 mm on the default sheet: one sheet, the
  label \<open>k\<close> in column \<open>k mod 30\<close> of row \<open>k div 30\<close>, rows counted from the top.
\<close>

definition gridInv :: "nat \<Rightarrow> DxfSheet PackState \<Rightarrow> bool" where
  "gridInv m = (\<lambda>(sheets, currentSheet, currentX, currentY, rowHeight).
     sheets = [] \<and> pageNumber currentSheet = 1 \<and> length (labels currentSheet) = Suc m \<and>
     rowHeight = 7 \<and> currentX = 20 * (real (m mod 30) + 1) \<and>
     currentY = 300 - 7 * real (m div 30) \<and>
     (\<forall>k\<le>m. pl_x (labels currentSheet ! k) = 20 * real (k mod 30) \<and>
             pl_y (labels currentSheet ! k) = 293 - 7 * real (k div 30)))"


text \<open>A whole number of magnitude at most \<open>10\<^sup>1\<^sup>5\<close>.\<close>

definition wholeNumber :: "real \<Rightarrow> bool" where
  "wholeNumber v = (v \<in> \<int> \<and> \<bar>v\<bar> \<le> 10 ^ 15)"

text \<open>
  The invariant of the placement loop behind the exactness of its arithmetic on such
  whole numbers: the cursor and the row height are whole numbers within a few multiples
  of \<open>10\<^sup>1\<^sup>5\<close>, so that every sum and difference of the next iteration is a whole number
  of magnitude at most \<open>5 \<times> 10\<^sup>1\<^sup>5\<close>, which is below \<open>2\<^sup>5\<^sup>3\<close>.
\<close>

definition exactInv :: "DxfSheet PackState \<Rightarrow> bool" where
  "exactInv = (\<lambda>(sheets, currentSheet, currentX, currentY, rowHeight).
     currentX \<in> \<int> \<and> - (10 ^ 15) \<le> currentX \<and> currentX \<le> 3 * 10 ^ 15 \<and>
     currentY \<in> \<int> \<and> - (2 * 10 ^ 15) \<le> currentY \<and> currentY \<le> 2 * 10 ^ 15 \<and>
     rowHeight \<in> \<int> \<and> 0 \<le> rowHeight \<and> rowHeight \<le> 10 ^ 15)"


subsection \<open>Text fitting\<close>

text \<open>
  A magnitude far below the largest double (about \<open>1.8 \<times> 10\<^sup>3\<^sup>0\<^sup>8\<close>): with the inputs of
  the text fitting in this range, the estimated and the available width do not
  overflow.
\<close>

definition inRange :: "real \<Rightarrow> bool" where
  "inRange v = (\<bar>v\<bar> \<le> 10 ^ 300)"

text \<open>A line of ten characters at 4 mm, and a text of twenty characters.\<close>

definition tenLetters :: LabelLine where
  "tenLetters = \<lparr>lineText = ''ABCDEFGHIJ'', textSizeMm = 4\<rparr>"

definition twentyLetters :: string where
  "twentyLetters = ''ABCDEFGHIJKLMNOPQRST''"

subsection \<open>Hole patterns\<close>




subsection \<open>Path tracing\<close>

text \<open>
  An instance of \<open>toNumber\<close> for the examples: on a non-empty string of decimal digits,
  the number they denote, as JavaScript's \<^verbatim>\<open>Number\<close> gives it; on every other string
  \<open>NaN\<close>. It is not \<^verbatim>\<open>Number\<close> on strings with a sign, a fraction, an exponent or a
  radix prefix, nor on the empty string, none of which the examples hold.
\<close>

definition digitValue :: "char \<Rightarrow> nat" where
  "digitValue c = length (takeWhile (\<lambda>d. d \<noteq> c) ''0123456789'')"

fun decimalValue :: "nat \<Rightarrow> string \<Rightarrow> nat" where
  "decimalValue acc [] = acc"
| "decimalValue acc (c # cs) = decimalValue (10 * acc + digitValue c) cs"

definition numberOfDigits :: "string \<Rightarrow> jsval" where
  "numberOfDigits s =
     (if s \<noteq> [] \<and> list_all (\<lambda>c. c \<in> set ''0123456789'') s
      then Num (real (decimalValue 0 s)) else NaN)"


subsection \<open>Export files\<close>







section \<open>Properties of the rounding\<close>

text \<open>The rounding of a number whose binary exponent is known.\<close>

lemma roundToDouble_at:
  assumes "2 powi e \<le> \<bar>v\<bar>" and "\<bar>v\<bar> < 2 powi (e + 1)"
  shows "roundToDouble v =
     2 powi (e - 52) * real_of_int (roundTiesEven (v / 2 powi (e - 52)))"
proof -
  have "(0::real) < 2 powi e" by simp
  with assms(1) have pos: "0 < \<bar>v\<bar>" by linarith
  then have nz: "v \<noteq> 0" by simp
  have a: "(2::real) powr real_of_int k = 2 powi k" for k
    by (simp add: powr_real_of_int')
  have "2 powr real_of_int e \<le> \<bar>v\<bar> \<and> \<bar>v\<bar> < 2 powr real_of_int (e + 1)"
    unfolding a using assms by blast
  with floor_log_eq_powr_iff [OF pos, of 2 e] have "\<lfloor>log 2 \<bar>v\<bar>\<rfloor> = e"
    by simp
  with nz show ?thesis by (simp add: roundToDouble_def Let_def)
qed

lemma roundTiesEven_of_int: "roundTiesEven (real_of_int n) = n"
  by (simp add: roundTiesEven_def)

lemma roundTiesEven_nonneg: "0 \<le> y \<Longrightarrow> 0 \<le> roundTiesEven y"
  by (simp add: roundTiesEven_def Let_def)

lemma roundTiesEven_nonpos:
  assumes "y \<le> 0" shows "roundTiesEven y \<le> 0"
proof (cases "y = 0")
  case True
  then show ?thesis by (simp add: roundTiesEven_def)
next
  case False
  with assms have "y < 0" by simp
  then have "\<lfloor>y\<rfloor> < 0" by simp
  then have "\<lfloor>y\<rfloor> + 1 \<le> 0" by linarith
  moreover from \<open>\<lfloor>y\<rfloor> < 0\<close> have "\<lfloor>y\<rfloor> \<le> 0" by simp
  ultimately show ?thesis by (simp add: roundTiesEven_def Let_def)
qed

lemma roundToDouble_nonneg: "0 \<le> v \<Longrightarrow> 0 \<le> roundToDouble v"
  by (simp add: roundToDouble_def Let_def roundTiesEven_nonneg)

lemma roundToDouble_nonpos: "v \<le> 0 \<Longrightarrow> roundToDouble v \<le> 0"
  by (simp add: roundToDouble_def Let_def roundTiesEven_nonpos mult_le_0_iff
      divide_le_0_iff)

lemma signPreserving_roundToDouble: "signPreserving roundToDouble"
  by (simp add: signPreserving_def roundToDouble_nonneg roundToDouble_nonpos)

lemma signPreserving_zero: "signPreserving rnd \<Longrightarrow> rnd 0 = 0"
  unfolding signPreserving_def by (metis order_antisym order_refl)

text \<open>The whole numbers up to \<open>2\<^sup>5\<^sup>3\<close> are doubles.\<close>

lemma roundToDouble_whole_below:
  assumes "v \<in> \<int>" and "\<bar>v\<bar> < 2 ^ 53"
  shows "roundToDouble v = v"
proof (cases "v = 0")
  case True
  then show ?thesis by (simp add: roundToDouble_def)
next
  case False
  from assms(1) obtain n where n: "v = real_of_int n" by (auto elim: Ints_cases)
  with False have "n \<noteq> 0" by auto
  then have "1 \<le> \<bar>n\<bar>" by linarith
  then have one: "1 \<le> \<bar>v\<bar>" unfolding n by (metis of_int_abs of_int_1_le_iff)
  define e where "e = \<lfloor>log 2 \<bar>v\<bar>\<rfloor>"
  from one assms(2) have "log 2 \<bar>v\<bar> < 53" by (subst log_less_iff) simp_all
  then have "e < 53" unfolding e_def by linarith
  then have e52: "e \<le> 52" by simp
  define k where "k = nat (52 - e)"
  from e52 have u: "(2::real) powi (e - 52) = inverse (2 ^ k)"
    by (auto simp add: power_int_def k_def power_one_over field_simps)
  have "v / 2 powi (e - 52) = real_of_int (n * 2 ^ k)"
    by (simp add: u n divide_inverse)
  then have rt: "roundTiesEven (v / 2 powi (e - 52)) = n * 2 ^ k"
    by (simp only: roundTiesEven_of_int)
  from False have "roundToDouble v =
      2 powi (e - 52) * real_of_int (roundTiesEven (v / 2 powi (e - 52)))"
    by (simp add: roundToDouble_def Let_def e_def)
  also have "\<dots> = inverse (2 ^ k) * real_of_int (n * 2 ^ k)"
    by (simp only: rt, simp only: u)
  also have "\<dots> = v" by (simp add: n)
  finally show ?thesis .
qed

lemma roundToDouble_whole:
  assumes "v \<in> \<int>" and "\<bar>v\<bar> \<le> 2 ^ 53"
  shows "roundToDouble v = v"
proof (cases "\<bar>v\<bar> < 2 ^ 53")
  case True
  with assms(1) show ?thesis by (rule roundToDouble_whole_below)
next
  case False
  with assms(2) have "\<bar>v\<bar> = 2 ^ 53" by simp
  then consider "v = 2 ^ 53" | "v = - (2 ^ 53)" by linarith
  then show ?thesis
  proof cases
    case 1
    show ?thesis unfolding 1
      by (subst roundToDouble_at [where e = 53]) (simp_all add: roundTiesEven_def)
  next
    case 2
    show ?thesis unfolding 2
      by (subst roundToDouble_at [where e = 53]) (simp_all add: roundTiesEven_def)
  qed
qed

lemma exactOnWhole_roundToDouble: "exactOnWhole roundToDouble"
  by (simp add: exactOnWhole_def roundToDouble_whole)

lemma exactOnWhole_apply:
  assumes "exactOnWhole rnd" and "v \<in> \<int>" and "\<bar>v\<bar> \<le> 5 * 10 ^ 15"
  shows "rnd v = v"
proof -
  have "(5 * 10 ^ 15 :: real) \<le> 2 ^ 53" by simp
  with assms(3) have "\<bar>v\<bar> \<le> 2 ^ 53" by linarith
  with assms(1,2) show ?thesis by (simp add: exactOnWhole_def)
qed

text \<open>
  The roundings of the examples. \<^verbatim>\<open>0.55\<close>, \<^verbatim>\<open>0.7\<close> and \<^verbatim>\<open>0.1\<close> are no doubles: the literals
  denote the doubles next to them. \<open>10\<^sup>1\<^sup>6 + 1\<close> lies halfway between the doubles \<open>10\<^sup>1\<^sup>6\<close>
  and \<open>10\<^sup>1\<^sup>6 + 2\<close>.
\<close>

lemma roundToDouble_055: "roundToDouble 0.55 = 2476979795053773 / 4503599627370496"
  by (subst roundToDouble_at [where e = "- 1"]) (simp_all add: roundTiesEven_def)

lemma roundToDouble_1e16: "roundToDouble 10000000000000000 = 10000000000000000"
  by (subst roundToDouble_at [where e = "53"]) (simp_all add: roundTiesEven_def)

lemma roundToDouble_1e16_1: "roundToDouble 10000000000000001 = 10000000000000000"
  by (subst roundToDouble_at [where e = "53"]) (simp_all add: roundTiesEven_def)

lemma roundToDouble_1e17: "roundToDouble 100000000000000000 = 100000000000000000"
  by (subst roundToDouble_at [where e = "56"]) (simp_all add: roundTiesEven_def)

lemma roundToDouble_07: "roundToDouble (7 / 10) = 3152519739159347 / 4503599627370496"
  by (subst roundToDouble_at [where e = "- 1"]) (simp_all add: roundTiesEven_def)

lemma roundToDouble_01: "roundToDouble (1 / 10) = 3602879701896397 / 36028797018963968"
  by (subst roundToDouble_at [where e = "- 4"]) (simp_all add: roundTiesEven_def)

lemma roundToDouble_07_double: "roundToDouble (3152519739159347 / 4503599627370496) = 3152519739159347 / 4503599627370496"
  by (subst roundToDouble_at [where e = "- 1"]) (simp_all add: roundTiesEven_def)

lemma roundToDouble_01_double: "roundToDouble (3602879701896397 / 36028797018963968) = 3602879701896397 / 36028797018963968"
  by (subst roundToDouble_at [where e = "- 4"]) (simp_all add: roundTiesEven_def)

lemma roundToDouble_07_01: "roundToDouble (28823037615171173 / 36028797018963968) = 7205759403792793 / 9007199254740992"
  by (subst roundToDouble_at [where e = "- 1"]) (simp_all add: roundTiesEven_def)

lemma roundToDouble_08_01: "roundToDouble (32425917317067569 / 36028797018963968) = 2026619832316723 / 2251799813685248"
  by (subst roundToDouble_at [where e = "- 1"]) (simp_all add: roundTiesEven_def)

lemmas roundToDouble_big = roundToDouble_1e16 roundToDouble_1e16_1 roundToDouble_1e17

lemmas roundToDouble_tenths = roundToDouble_07 roundToDouble_01 roundToDouble_07_double
  roundToDouble_01_double roundToDouble_07_01 roundToDouble_08_01


section \<open>Properties of the packer\<close>

subsection \<open>Expansion by quantity\<close>

lemma pushCopies_replicate:
  "pushCopies s qty i allLabels = allLabels @ replicate (nat (qty - i)) s"
proof (induction s qty i allLabels rule: pushCopies.induct)
  case (1 s qty i allLabels)
  show ?case
  proof (cases "i < qty")
    case True
    then have "nat (qty - i) = Suc (nat (qty - (i + 1)))" by simp
    with True 1 show ?thesis
      by (subst pushCopies.simps) (simp add: replicate_append_same)
  next
    case False
    then show ?thesis by (subst pushCopies.simps) simp
  qed
qed

lemma expandSetups_concat:
  "expandSetups setups allLabels =
     allLabels @ concat (map (\<lambda>s. replicate
       (nat (if labelQuantity s = 0 then 1 else labelQuantity s)) s) setups)"
  by (induction setups arbitrary: allLabels) (simp_all add: pushCopies_replicate Let_def)

lemma length_expandSetups:
  "length (expandSetups setups []) =
     (\<Sum>s\<leftarrow>setups. nat (if labelQuantity s = 0 then 1 else labelQuantity s))"
  by (simp add: expandSetups_concat length_concat comp_def)

lemma set_expandSetups: "set (expandSetups setups []) \<subseteq> set setups"
  by (auto simp add: expandSetups_concat)

lemma placeAll_snoc: "placeAll sheet (ls @ [l]) st = placeLabel sheet l (placeAll sheet ls st)"
  by (induction ls arbitrary: st) simp_all

text \<open>The equations that evaluate the packer on a concrete input.\<close>

lemmas pack_eval = arrangeLabelsOnSheets_def DEFAULT_SHEET_def pushCopies.simps
  initialState_def placeLabel_def pushPlacement_def overflowSheet_def wrapRow_def seedRow_def
  flushSheets_def smallLabel_def placedAt_def

lemmas pack_eval_pdf = arrangeLabelsOnSheets_pdf_def DEFAULT_SHEET_def pushCopies.simps
  placeLabel_pdf_def pushPlacement_pdf_def overflowSheet_pdf_def wrapRow_def seedRow_def
  smallLabel_def

subsection \<open>The two copies of the packer\<close>

lemma pdfState_placeLabel:
  "pdfState (placeLabel sheet label st) = placeLabel_pdf sheet label (pdfState st)"
  by (cases st)
    (simp add: pdfState_def placeLabel_def placeLabel_pdf_def pushPlacement_def
      pushPlacement_pdf_def overflowSheet_def overflowSheet_pdf_def wrapRow_def seedRow_def
      toPdf_def Let_def)

lemma pdfState_placeAll:
  "pdfState (placeAll sheet ls st) = placeAll_pdf sheet ls (pdfState st)"
  by (induction ls arbitrary: st) (simp_all add: pdfState_placeLabel)

text \<open>The packer of \<^verbatim>\<open>lib/pdf\<close> returns the sheets of the packer of \<^verbatim>\<open>lib/dxf\<close>, without
  the page numbers and the \<^verbatim>\<open>quantity\<close> fields: the same labels at the same places.\<close>

lemma packers_agree:
  "arrangeLabelsOnSheets_pdf setups sheet =
     map (\<lambda>sh. map toPdf (labels sh)) (arrangeLabelsOnSheets setups sheet)"
proof -
  have "placeAll_pdf sheet (expandSetups setups [])
          ([], [], margin sheet, height sheet - margin sheet, 0) =
        pdfState (placeAll sheet (expandSetups setups []) (initialState sheet))"
    by (simp add: pdfState_placeAll) (simp add: pdfState_def initialState_def)
  then show ?thesis
    by (cases "placeAll sheet (expandSetups setups []) (initialState sheet)")
      (simp add: arrangeLabelsOnSheets_pdf_def arrangeLabelsOnSheets_def flushSheets_def
        pdfState_def)
qed

subsection \<open>Conservation\<close>

lemma placedCount_placeLabel:
  "placedCount (placeLabel sheet label st) = Suc (placedCount st)"
  by (cases st)
    (simp add: placeLabel_def pushPlacement_def overflowSheet_def wrapRow_def seedRow_def
      placedCount_def totalLabels_def Let_def)

lemma placedCount_placeAll:
  "placedCount (placeAll sheet ls st) = placedCount st + length ls"
  by (induction ls arbitrary: st) (simp_all add: placedCount_placeLabel)

lemma totalLabels_flushSheets: "totalLabels (flushSheets st) = placedCount st"
  by (cases st) (simp add: flushSheets_def placedCount_def totalLabels_def)

lemma placedCount_initialState: "placedCount (initialState sheet) = 0"
  by (simp add: placedCount_def initialState_def totalLabels_def)

text \<open>
  Claim C1, as the code has it. For every sequence of specs (empty or not) and every
  sheet configuration, the number of placements on all returned sheets is the sum over
  the specs of their effective quantities: a quantity \<open>q \<ge> 1\<close> counts \<open>q\<close>, the quantity
  0 counts 1 (\<^verbatim>\<open>setup.labelQuantity || 1\<close>), a negative quantity counts 0.
\<close>

theorem placements_equal_effective_quantities:
  "totalLabels (arrangeLabelsOnSheets setups sheet) =
     (\<Sum>s\<leftarrow>setups. nat (if labelQuantity s = 0 then 1 else labelQuantity s))"
proof -
  have "totalLabels (arrangeLabelsOnSheets setups sheet) =
      placedCount (initialState sheet) + length (expandSetups setups [])"
    by (simp add: arrangeLabelsOnSheets_def totalLabels_flushSheets placedCount_placeAll)
  then show ?thesis
    by (simp add: placedCount_initialState length_expandSetups)
qed

text \<open>
  Claim C1 as the specification states it fails: one spec of quantity 0 is a non-empty
  input whose quantities sum to 0, and the packer places it once.
\<close>

theorem zero_quantity_is_placed_once:
  "[smallLabel 0] \<noteq> [] \<and>
   (\<Sum>s\<leftarrow>[smallLabel 0]. labelQuantity s) = 0 \<and>
   arrangeLabelsOnSheets [smallLabel 0] DEFAULT_SHEET =
     [\<lparr>pageNumber = 1, labels = [placedAt (smallLabel 0) 0 293]\<rparr>] \<and>
   totalLabels (arrangeLabelsOnSheets [smallLabel 0] DEFAULT_SHEET) = 1"
  by (simp add: pack_eval totalLabels_def)

subsection \<open>No empty sheet\<close>

lemma sheetsNonEmpty_placeLabel:
  "sheetsNonEmpty st \<Longrightarrow> sheetsNonEmpty (placeLabel sheet label st)"
  by (cases st)
    (auto simp add: placeLabel_def pushPlacement_def overflowSheet_def wrapRow_def
      seedRow_def sheetsNonEmpty_def Let_def)

lemma sheetsNonEmpty_placeAll:
  "sheetsNonEmpty st \<Longrightarrow> sheetsNonEmpty (placeAll sheet ls st)"
  by (induction ls arbitrary: st) (simp_all add: sheetsNonEmpty_placeLabel)

lemma sheetsNonEmpty_pdf_placeLabel:
  "sheetsNonEmpty_pdf st \<Longrightarrow> sheetsNonEmpty_pdf (placeLabel_pdf sheet label st)"
  by (cases st)
    (auto simp add: placeLabel_pdf_def pushPlacement_pdf_def overflowSheet_pdf_def
      wrapRow_def seedRow_def sheetsNonEmpty_pdf_def Let_def)

lemma sheetsNonEmpty_pdf_placeAll:
  "sheetsNonEmpty_pdf st \<Longrightarrow> sheetsNonEmpty_pdf (placeAll_pdf sheet ls st)"
  by (induction ls arbitrary: st) (simp_all add: sheetsNonEmpty_pdf_placeLabel)

lemma flushSheets_nonEmpty:
  "sheetsNonEmpty st \<Longrightarrow> sh \<in> set (flushSheets st) \<Longrightarrow> labels sh \<noteq> []"
  by (cases st) (auto simp add: sheetsNonEmpty_def flushSheets_def split: if_splits)

text \<open>
  Claim C10. For every input, every sheet the packer returns holds at least one
  placement, in \<^verbatim>\<open>lib/dxf\<close> and in \<^verbatim>\<open>lib/pdf\<close>, and the empty list of specs gives the
  empty list of sheets.
\<close>

theorem no_empty_sheet:
  "(\<forall>sh\<in>set (arrangeLabelsOnSheets setups sheet). 1 \<le> length (labels sh)) \<and>
   (\<forall>sh\<in>set (arrangeLabelsOnSheets_pdf setups sheet). 1 \<le> length sh) \<and>
   arrangeLabelsOnSheets [] sheet = [] \<and> arrangeLabelsOnSheets_pdf [] sheet = []"
proof (intro conjI ballI)
  fix sh assume "sh \<in> set (arrangeLabelsOnSheets setups sheet)"
  moreover have "sheetsNonEmpty (placeAll sheet (expandSetups setups []) (initialState sheet))"
    by (rule sheetsNonEmpty_placeAll) (simp add: sheetsNonEmpty_def initialState_def)
  ultimately have "labels sh \<noteq> []"
    unfolding arrangeLabelsOnSheets_def by (rule flushSheets_nonEmpty[rotated])
  then show "1 \<le> length (labels sh)" by (cases "labels sh") simp_all
next
  fix sh assume a: "sh \<in> set (arrangeLabelsOnSheets_pdf setups sheet)"
  have "sheetsNonEmpty_pdf (placeAll_pdf sheet (expandSetups setups [])
          ([], [], margin sheet, height sheet - margin sheet, 0))"
    by (rule sheetsNonEmpty_pdf_placeAll) (simp add: sheetsNonEmpty_pdf_def)
  with a have "sh \<noteq> []"
    by (auto simp add: arrangeLabelsOnSheets_pdf_def sheetsNonEmpty_pdf_def
        split: prod.splits if_splits)
  then show "1 \<le> length sh" by (cases sh) simp_all
next
  show "arrangeLabelsOnSheets [] sheet = []"
    by (simp add: arrangeLabelsOnSheets_def initialState_def flushSheets_def)
next
  show "arrangeLabelsOnSheets_pdf [] sheet = []"
    by (simp add: arrangeLabelsOnSheets_pdf_def)
qed

text \<open>Three small labels on the default sheet: one sheet, and it is not empty.\<close>

theorem no_empty_sheet_witness:
  "arrangeLabelsOnSheets [smallLabel 3] DEFAULT_SHEET \<noteq> [] \<and>
   1 \<le> length (labels (hd (arrangeLabelsOnSheets [smallLabel 3] DEFAULT_SHEET))) \<and>
   arrangeLabelsOnSheets_pdf [smallLabel 3] DEFAULT_SHEET \<noteq> [] \<and>
   1 \<le> length (hd (arrangeLabelsOnSheets_pdf [smallLabel 3] DEFAULT_SHEET))"
proof -
  have d: "arrangeLabelsOnSheets [smallLabel 3] DEFAULT_SHEET \<noteq> []"
    by (simp add: pack_eval)
  have p: "arrangeLabelsOnSheets_pdf [smallLabel 3] DEFAULT_SHEET \<noteq> []"
    by (simp add: pack_eval_pdf)
  from d p no_empty_sheet [of "[smallLabel 3]" DEFAULT_SHEET] show ?thesis
    by (simp add: hd_in_set)
qed

subsection \<open>No overlap\<close>

lemma footprintsDisjoint_sym: "footprintsDisjoint p q = footprintsDisjoint q p"
  by (auto simp add: footprintsDisjoint_def)

lemma noOverlap_Nil: "noOverlap []"
  by (simp add: noOverlap_def)

lemma noOverlap_snoc:
  assumes "noOverlap ps" and "\<forall>p\<in>set ps. footprintsDisjoint p q"
  shows "noOverlap (ps @ [q])"
  unfolding noOverlap_def
proof (intro allI impI)
  fix i j assume ij: "i < length (ps @ [q])" "j < length (ps @ [q])" "i \<noteq> j"
  consider "i < length ps" "j < length ps" | "i < length ps" "j = length ps"
    | "i = length ps" "j < length ps"
    using ij by (cases "i < length ps"; cases "j < length ps") auto
  then show "footprintsDisjoint ((ps @ [q]) ! i) ((ps @ [q]) ! j)"
  proof cases
    case 1
    with assms(1) ij(3) show ?thesis by (simp add: noOverlap_def nth_append)
  next
    case 2
    with assms(2) show ?thesis by (simp add: nth_append)
  next
    case 3
    with assms(2) show ?thesis by (simp add: nth_append footprintsDisjoint_sym[of q])
  qed
qed

lemma packInv_seedRow:
  "packInv st \<Longrightarrow> 0 \<le> labelHeightMm label \<Longrightarrow> packInv (seedRow label st)"
  by (cases st) (auto simp add: packInv_def seedRow_def rowInv_def)

lemma packInv_wrapRow:
  "packInv st \<Longrightarrow> 0 \<le> gap sheet \<Longrightarrow> 0 \<le> labelHeightMm label \<Longrightarrow>
   packInv (wrapRow sheet label st)"
  by (cases st) (auto simp add: packInv_def wrapRow_def rowInv_def; force)

lemma packInv_overflowSheet:
  "packInv st \<Longrightarrow> packInv (overflowSheet sheet label st)"
  by (cases st) (auto simp add: packInv_def overflowSheet_def rowInv_def noOverlap_Nil Let_def)

lemma packInv_pushPlacement:
  assumes "packInv st" and "0 \<le> gap sheet" and "0 \<le> labelLengthMm label"
  shows "packInv (pushPlacement sheet label st)"
proof -
  obtain sheets cur x y rh where st: "st = (sheets, cur, x, y, rh)" by (cases st)
  let ?q = "\<lparr>pl_setup = label, pl_x = x, pl_y = y - labelHeightMm label, pl_quantity = 1\<rparr>"
  from assms(1) have old: "\<forall>sh\<in>set sheets. noOverlap (labels sh)" "noOverlap (labels cur)"
    and row: "rowInv x y rh (labels cur)"
    by (simp_all add: st packInv_def)
  have "\<forall>p\<in>set (labels cur). footprintsDisjoint p ?q"
    using row by (auto simp add: rowInv_def footprintsDisjoint_def)
  with old(2) have "noOverlap (labels cur @ [?q])" by (rule noOverlap_snoc)
  moreover have "rowInv (x + (labelLengthMm label + gap sheet)) y (max rh (labelHeightMm label))
      (labels cur @ [?q])"
    using row assms(2,3) by (auto simp add: rowInv_def; force)
  ultimately show ?thesis using old(1) by (simp add: st packInv_def pushPlacement_def)
qed

lemma packInv_placeLabel:
  "packInv st \<Longrightarrow> 0 \<le> gap sheet \<Longrightarrow> 0 \<le> labelLengthMm label \<Longrightarrow>
   0 \<le> labelHeightMm label \<Longrightarrow> packInv (placeLabel sheet label st)"
  unfolding placeLabel_def
  by (intro packInv_pushPlacement packInv_overflowSheet packInv_wrapRow packInv_seedRow)

lemma packInv_placeAll:
  "packInv st \<Longrightarrow> 0 \<le> gap sheet \<Longrightarrow>
   \<forall>l\<in>set ls. 0 \<le> labelLengthMm l \<and> 0 \<le> labelHeightMm l \<Longrightarrow>
   packInv (placeAll sheet ls st)"
  by (induction ls arbitrary: st) (simp_all add: packInv_placeLabel)

lemma packInv_flushSheets:
  "packInv st \<Longrightarrow> sh \<in> set (flushSheets st) \<Longrightarrow> noOverlap (labels sh)"
  by (cases st) (auto simp add: packInv_def flushSheets_def split: if_splits)

text \<open>
  On a sheet and a label whose measurements are whole numbers of magnitude at most
  \<open>10\<^sup>1\<^sup>5\<close>, an iteration that starts within the bounds of \<open>exactInv\<close> rounds nothing:
  each sum and difference is a whole number of magnitude at most \<open>5 \<times> 10\<^sup>1\<^sup>5\<close>. The
  iteration in double arithmetic is the iteration in exact arithmetic, and it ends
  within the bounds.
\<close>

lemma placeLabel_rnd_exact:
  assumes ex: "exactOnWhole rnd"
    and sh: "wholeNumber (width sheet)" "wholeNumber (height sheet)"
      "wholeNumber (margin sheet)" "wholeNumber (gap sheet)" "0 \<le> gap sheet"
    and lb: "wholeNumber (labelLengthMm label)" "wholeNumber (labelHeightMm label)"
      "0 \<le> labelLengthMm label" "0 \<le> labelHeightMm label"
    and inv: "exactInv st"
  shows "placeLabel_rnd rnd sheet label st = placeLabel sheet label st \<and>
         exactInv (placeLabel sheet label st)"
proof -
  obtain sheets cur x y rh where st: "st = (sheets, cur, x, y, rh)" by (cases st)
  define W H M G w h where "W = width sheet" and "H = height sheet" and "M = margin sheet"
    and "G = gap sheet" and "w = labelLengthMm label" and "h = labelHeightMm label"
  note d = W_def H_def M_def G_def w_def h_def
  from sh lb have I: "W \<in> \<int>" "H \<in> \<int>" "M \<in> \<int>" "G \<in> \<int>" "w \<in> \<int>" "h \<in> \<int>"
    and B: "\<bar>W\<bar> \<le> 10 ^ 15" "\<bar>H\<bar> \<le> 10 ^ 15" "\<bar>M\<bar> \<le> 10 ^ 15" "G \<le> 10 ^ 15" "0 \<le> G"
      "w \<le> 10 ^ 15" "0 \<le> w" "h \<le> 10 ^ 15" "0 \<le> h"
    by (simp_all add: wholeNumber_def d)
  from inv have X: "x \<in> \<int>" "- (10 ^ 15) \<le> x" "x \<le> 3 * 10 ^ 15"
    and Y: "y \<in> \<int>" "- (2 * 10 ^ 15) \<le> y" "y \<le> 2 * 10 ^ 15"
    and R: "rh \<in> \<int>" "0 \<le> rh" "rh \<le> 10 ^ 15"
    by (simp_all add: st exactInv_def)
  define rh0 where "rh0 = (if rh = 0 then h else rh)"
  from R I B have R0: "rh0 \<in> \<int>" "0 \<le> rh0" "rh0 \<le> 10 ^ 15" by (simp_all add: rh0_def)
  have seed: "seedRow label st = (sheets, cur, x, y, rh0)"
    by (simp add: st seedRow_def rh0_def d)
  have r1: "rnd (x + w) = x + w" using X I B by (intro exactOnWhole_apply [OF ex]) simp_all
  have r2: "rnd (W - M) = W - M" using I B by (intro exactOnWhole_apply [OF ex]) simp_all
  have r3: "rnd (rh0 + G) = rh0 + G" using R0 I B by (intro exactOnWhole_apply [OF ex]) simp_all
  have r4: "rnd (y - (rh0 + G)) = y - (rh0 + G)"
    using Y R0 I B by (intro exactOnWhole_apply [OF ex]) simp_all
  define x1 y1 rh1 where "x1 = (if x + w > W - M then M else x)"
    and "y1 = (if x + w > W - M then y - (rh0 + G) else y)"
    and "rh1 = (if x + w > W - M then h else rh0)"
  have wrap: "wrapRow sheet label (sheets, cur, x, y, rh0) = (sheets, cur, x1, y1, rh1)"
    and wrap_rnd: "wrapRow_rnd rnd sheet label (sheets, cur, x, y, rh0) =
      (sheets, cur, x1, y1, rh1)"
    by (simp_all add: wrapRow_def wrapRow_rnd_def x1_def y1_def rh1_def d [symmetric]
        r1 r2 r3 r4)
  have X1: "x1 \<in> \<int>" "- (10 ^ 15) \<le> x1" "x1 + w \<le> 2 * 10 ^ 15"
    using X I B by (auto simp add: x1_def)
  have Y1: "y1 \<in> \<int>" "- (4 * 10 ^ 15) \<le> y1" "y1 \<le> 2 * 10 ^ 15"
    using Y R0 I B by (auto simp add: y1_def)
  have R1: "rh1 \<in> \<int>" "0 \<le> rh1" "rh1 \<le> 10 ^ 15"
    using R0 I B by (auto simp add: rh1_def)
  have r5: "rnd (y1 - h) = y1 - h" using Y1 I B by (intro exactOnWhole_apply [OF ex]) simp_all
  have r6: "rnd (H - M) = H - M" using I B by (intro exactOnWhole_apply [OF ex]) simp_all
  define sheets2 cur2 x2 y2 rh2 where
    "sheets2 = (if y1 - h < M then (if length (labels cur) > 0 then sheets @ [cur] else sheets)
                else sheets)"
    and "cur2 = (if y1 - h < M
                 then \<lparr>pageNumber = int (length (if length (labels cur) > 0 then sheets @ [cur]
                          else sheets)) + 1, labels = []\<rparr>
                 else cur)"
    and "x2 = (if y1 - h < M then M else x1)"
    and "y2 = (if y1 - h < M then H - M else y1)"
    and "rh2 = (if y1 - h < M then h else rh1)"
  have over: "overflowSheet sheet label (sheets, cur, x1, y1, rh1) =
      (sheets2, cur2, x2, y2, rh2)"
    and over_rnd: "overflowSheet_rnd rnd sheet label (sheets, cur, x1, y1, rh1) =
      (sheets2, cur2, x2, y2, rh2)"
    by (simp_all add: overflowSheet_def overflowSheet_rnd_def sheets2_def cur2_def x2_def
        y2_def rh2_def d [symmetric] r5 r6 Let_def)
  have X2: "x2 \<in> \<int>" "- (10 ^ 15) \<le> x2" "x2 + w \<le> 2 * 10 ^ 15"
    using X1 I B by (auto simp add: x2_def)
  have Y2: "y2 \<in> \<int>" "- (2 * 10 ^ 15) \<le> y2" "y2 \<le> 2 * 10 ^ 15"
    using Y1 I B by (auto simp add: y2_def)
  have R2: "rh2 \<in> \<int>" "0 \<le> rh2" "rh2 \<le> 10 ^ 15"
    using R1 I B by (auto simp add: rh2_def)
  have r7: "rnd (y2 - h) = y2 - h" using Y2 I B by (intro exactOnWhole_apply [OF ex]) simp_all
  have r8: "rnd (w + G) = w + G" using I B by (intro exactOnWhole_apply [OF ex]) simp_all
  have r9: "rnd (x2 + (w + G)) = x2 + (w + G)"
    using X2 I B by (intro exactOnWhole_apply [OF ex]) simp_all
  have push: "pushPlacement_rnd rnd sheet label (sheets2, cur2, x2, y2, rh2) =
      pushPlacement sheet label (sheets2, cur2, x2, y2, rh2)"
    by (simp add: pushPlacement_def pushPlacement_rnd_def d [symmetric] r7 r8 r9)
  have eq: "placeLabel_rnd rnd sheet label st = placeLabel sheet label st"
    by (simp only: placeLabel_rnd_def placeLabel_def seed wrap wrap_rnd over over_rnd push)
  have "exactInv (pushPlacement sheet label (sheets2, cur2, x2, y2, rh2))"
    using X2 Y2 R2 I B by (simp add: exactInv_def pushPlacement_def d [symmetric] max_def)
  then have "exactInv (placeLabel sheet label st)"
    by (simp only: placeLabel_def seed wrap over)
  with eq show ?thesis by simp
qed

lemma placeAll_rnd_exact:
  assumes ex: "exactOnWhole rnd"
    and sh: "wholeNumber (width sheet)" "wholeNumber (height sheet)"
      "wholeNumber (margin sheet)" "wholeNumber (gap sheet)" "0 \<le> gap sheet"
  shows "\<forall>l\<in>set ls. wholeNumber (labelLengthMm l) \<and> wholeNumber (labelHeightMm l) \<and>
           0 \<le> labelLengthMm l \<and> 0 \<le> labelHeightMm l \<Longrightarrow>
         exactInv st \<Longrightarrow> placeAll_rnd rnd sheet ls st = placeAll sheet ls st"
proof (induction ls arbitrary: st)
  case Nil
  then show ?case by simp
next
  case (Cons l ls)
  from Cons.prems have "placeLabel_rnd rnd sheet l st = placeLabel sheet l st \<and>
      exactInv (placeLabel sheet l st)"
    by (intro placeLabel_rnd_exact [OF ex sh]) simp_all
  with Cons show ?case by simp
qed

lemma initialState_rnd_exact:
  assumes "exactOnWhole rnd" and "wholeNumber (height sheet)" and "wholeNumber (margin sheet)"
  shows "initialState_rnd rnd sheet = initialState sheet" and "exactInv (initialState sheet)"
proof -
  from assms(2,3) have i: "height sheet \<in> \<int>" "margin sheet \<in> \<int>"
    and b: "\<bar>height sheet\<bar> \<le> 10 ^ 15" "\<bar>margin sheet\<bar> \<le> 10 ^ 15"
    by (simp_all add: wholeNumber_def)
  then have "rnd (height sheet - margin sheet) = height sheet - margin sheet"
    by (intro exactOnWhole_apply [OF assms(1)]) simp_all
  then show "initialState_rnd rnd sheet = initialState sheet"
    by (simp add: initialState_rnd_def initialState_def)
  from i b show "exactInv (initialState sheet)"
    by (auto simp add: exactInv_def initialState_def)
qed

text \<open>On whole numbers of magnitude at most \<open>10\<^sup>1\<^sup>5\<close> (a gap and label measurements
  that are not negative) the packer in double arithmetic returns what the packer in
  exact arithmetic returns.\<close>

lemma arrangeLabelsOnSheets_rnd_exact:
  assumes "exactOnWhole rnd"
    and "wholeNumber (width sheet)" and "wholeNumber (height sheet)"
    and "wholeNumber (margin sheet)" and "wholeNumber (gap sheet)" and "0 \<le> gap sheet"
    and "\<forall>s\<in>set setups. wholeNumber (labelLengthMm s) \<and> wholeNumber (labelHeightMm s) \<and>
           0 \<le> labelLengthMm s \<and> 0 \<le> labelHeightMm s"
  shows "arrangeLabelsOnSheets_rnd rnd setups sheet = arrangeLabelsOnSheets setups sheet"
proof -
  have "\<forall>l\<in>set (expandSetups setups []). wholeNumber (labelLengthMm l) \<and>
      wholeNumber (labelHeightMm l) \<and> 0 \<le> labelLengthMm l \<and> 0 \<le> labelHeightMm l"
    using assms(7) set_expandSetups by blast
  then have "placeAll_rnd rnd sheet (expandSetups setups []) (initialState sheet) =
      placeAll sheet (expandSetups setups []) (initialState sheet)"
    using initialState_rnd_exact(2) [OF assms(1,3,4)]
    by (rule placeAll_rnd_exact [OF assms(1-6)])
  then show ?thesis
    by (simp add: arrangeLabelsOnSheets_rnd_def arrangeLabelsOnSheets_def
        initialState_rnd_exact(1) [OF assms(1,3,4)])
qed

text \<open>The equations that evaluate the packer in double arithmetic on a concrete input.\<close>

lemmas pack_eval_rnd = arrangeLabelsOnSheets_rnd_def DEFAULT_SHEET_def pushCopies.simps
  initialState_rnd_def placeLabel_rnd_def pushPlacement_rnd_def overflowSheet_rnd_def
  wrapRow_rnd_def seedRow_def flushSheets_def smallLabel_def placedAt_def roundToDouble_whole

text \<open>
  Claim C2, as the code has it. The packer works in double arithmetic (\<open>rnd\<close>, exact on
  the whole numbers up to \<open>2\<^sup>5\<^sup>3\<close> as the rounding to the nearest double is). For every
  input whose sheet width, height, margin and gap and whose label lengths and heights
  are whole numbers of magnitude at most \<open>10\<^sup>1\<^sup>5\<close>, with a gap and label measurements that
  are not negative, and every returned sheet, the footprints of any two distinct
  placements of the sheet are separated along an axis: they overlap at most on shared
  edges.
\<close>

theorem labels_do_not_overlap:
  assumes "exactOnWhole rnd"
    and "wholeNumber (width sheet)" and "wholeNumber (height sheet)"
    and "wholeNumber (margin sheet)" and "wholeNumber (gap sheet)" and "0 \<le> gap sheet"
    and "\<forall>s\<in>set setups. wholeNumber (labelLengthMm s) \<and> wholeNumber (labelHeightMm s) \<and>
           0 \<le> labelLengthMm s \<and> 0 \<le> labelHeightMm s"
  shows "\<forall>sh\<in>set (arrangeLabelsOnSheets_rnd rnd setups sheet).
     \<forall>i<length (labels sh). \<forall>j<length (labels sh).
       i \<noteq> j \<longrightarrow> footprintsDisjoint (labels sh ! i) (labels sh ! j)"
proof
  fix sh assume "sh \<in> set (arrangeLabelsOnSheets_rnd rnd setups sheet)"
  then have sh: "sh \<in> set (arrangeLabelsOnSheets setups sheet)"
    by (simp only: arrangeLabelsOnSheets_rnd_exact [OF assms])
  have "packInv (initialState sheet)"
    by (simp add: packInv_def initialState_def noOverlap_Nil rowInv_def)
  moreover have "\<forall>l\<in>set (expandSetups setups []). 0 \<le> labelLengthMm l \<and> 0 \<le> labelHeightMm l"
    using assms(7) set_expandSetups by blast
  ultimately have "packInv (placeAll sheet (expandSetups setups []) (initialState sheet))"
    using assms(6) by (intro packInv_placeAll)
  with sh have "noOverlap (labels sh)"
    unfolding arrangeLabelsOnSheets_def by (rule packInv_flushSheets[rotated])
  then show "\<forall>i<length (labels sh). \<forall>j<length (labels sh).
       i \<noteq> j \<longrightarrow> footprintsDisjoint (labels sh ! i) (labels sh ! j)"
    by (simp add: noOverlap_def)
qed

text \<open>Three small labels on the default sheet, in the arithmetic of doubles: the first
  two stand side by side.\<close>

theorem labels_do_not_overlap_witness:
  "arrangeLabelsOnSheets_rnd roundToDouble [smallLabel 3] DEFAULT_SHEET =
     [\<lparr>pageNumber = 1, labels = [placedAt (smallLabel 3) 0 293, placedAt (smallLabel 3) 20 293,
        placedAt (smallLabel 3) 40 293]\<rparr>] \<and>
   footprintsDisjoint (placedAt (smallLabel 3) 0 293) (placedAt (smallLabel 3) 20 293)"
proof -
  have e: "arrangeLabelsOnSheets_rnd roundToDouble [smallLabel 3] DEFAULT_SHEET =
     [\<lparr>pageNumber = 1, labels = [placedAt (smallLabel 3) 0 293, placedAt (smallLabel 3) 20 293,
        placedAt (smallLabel 3) 40 293]\<rparr>]"
    by (simp add: pack_eval_rnd)
  have "wholeNumber (width DEFAULT_SHEET)" and "wholeNumber (height DEFAULT_SHEET)"
    and "wholeNumber (margin DEFAULT_SHEET)" and "wholeNumber (gap DEFAULT_SHEET)"
    and "0 \<le> gap DEFAULT_SHEET"
    and "\<forall>s\<in>set [smallLabel 3]. wholeNumber (labelLengthMm s) \<and>
           wholeNumber (labelHeightMm s) \<and> 0 \<le> labelLengthMm s \<and> 0 \<le> labelHeightMm s"
    by (simp_all add: DEFAULT_SHEET_def smallLabel_def wholeNumber_def)
  from labels_do_not_overlap [OF exactOnWhole_roundToDouble this] have
    "\<forall>i<3. \<forall>j<3. i \<noteq> j \<longrightarrow>
       footprintsDisjoint
         ([placedAt (smallLabel 3) 0 293, placedAt (smallLabel 3) 20 293,
           placedAt (smallLabel 3) 40 293] ! i)
         ([placedAt (smallLabel 3) 0 293, placedAt (smallLabel 3) 20 293,
           placedAt (smallLabel 3) 40 293] ! j)"
    by (simp add: e)
  then have "(0::nat) < 3 \<longrightarrow> (1::nat) < 3 \<longrightarrow> (0::nat) \<noteq> 1 \<longrightarrow>
       footprintsDisjoint
         ([placedAt (smallLabel 3) 0 293, placedAt (smallLabel 3) 20 293,
           placedAt (smallLabel 3) 40 293] ! 0)
         ([placedAt (smallLabel 3) 0 293, placedAt (smallLabel 3) 20 293,
           placedAt (smallLabel 3) 40 293] ! 1)"
    by blast
  then have "footprintsDisjoint (placedAt (smallLabel 3) 0 293) (placedAt (smallLabel 3) 20 293)"
    by simp
  with e show ?thesis by simp
qed

text \<open>
  Claim C2 as the specification states it, for every input, fails, in five ways. With a
  gap of -5 two labels of 20 by 7 mm are placed at \<open>x = 0\<close> and \<open>x = 15\<close> of one row. With
  a label of length -10 between two labels of length 20, the third label is placed at
  \<open>x = 10\<close>, over the first at \<open>x = 0\<close>. With a label of height -7 between two labels of
  600 by 7 mm, the second row wrap moves the cursor back up, and the third label is
  placed where the first is. On a sheet \<open>10\<^sup>1\<^sup>7\<close> mm wide, after a label \<open>10\<^sup>1\<^sup>6\<close> mm long, the
  cursor does not move past a label of 1 mm (\<open>10\<^sup>1\<^sup>6 + 1\<close> rounds to \<open>10\<^sup>1\<^sup>6\<close>): two labels of
  1 mm are placed at the same \<open>x = 10\<^sup>1\<^sup>6\<close>. And with labels of lengths \<^verbatim>\<open>0.7\<close>, \<^verbatim>\<open>0.1\<close> and
  \<^verbatim>\<open>0.1\<close> the sum \<^verbatim>\<open>0.7 + 0.1\<close> rounds down, to \<^verbatim>\<open>0.7999999999999999\<close>: the third label
  starts before the second ends.
\<close>

theorem overlap_counterexample:
  "arrangeLabelsOnSheets_rnd roundToDouble [smallLabel 2]
       \<lparr>width = 600, height = 300, margin = 0, gap = - 5\<rparr> =
     [\<lparr>pageNumber = 1,
       labels = [placedAt (smallLabel 2) 0 293, placedAt (smallLabel 2) 15 293]\<rparr>] \<and>
   \<not> footprintsDisjoint (placedAt (smallLabel 2) 0 293) (placedAt (smallLabel 2) 15 293) \<and>
   arrangeLabelsOnSheets_rnd roundToDouble
       [smallLabel 1, (smallLabel 1)\<lparr>labelLengthMm := - 10\<rparr>, smallLabel 1] DEFAULT_SHEET =
     [\<lparr>pageNumber = 1,
       labels = [placedAt (smallLabel 1) 0 293,
                 placedAt ((smallLabel 1)\<lparr>labelLengthMm := - 10\<rparr>) 20 293,
                 placedAt (smallLabel 1) 10 293]\<rparr>] \<and>
   \<not> footprintsDisjoint (placedAt (smallLabel 1) 0 293) (placedAt (smallLabel 1) 10 293) \<and>
   arrangeLabelsOnSheets_rnd roundToDouble
       [(smallLabel 1)\<lparr>labelLengthMm := 600\<rparr>,
        (smallLabel 1)\<lparr>labelLengthMm := 600, labelHeightMm := - 7\<rparr>,
        (smallLabel 1)\<lparr>labelLengthMm := 600\<rparr>] DEFAULT_SHEET =
     [\<lparr>pageNumber = 1,
       labels = [placedAt ((smallLabel 1)\<lparr>labelLengthMm := 600\<rparr>) 0 293,
                 placedAt ((smallLabel 1)\<lparr>labelLengthMm := 600, labelHeightMm := - 7\<rparr>) 0 300,
                 placedAt ((smallLabel 1)\<lparr>labelLengthMm := 600\<rparr>) 0 293]\<rparr>] \<and>
   \<not> footprintsDisjoint (placedAt ((smallLabel 1)\<lparr>labelLengthMm := 600\<rparr>) 0 293)
       (placedAt ((smallLabel 1)\<lparr>labelLengthMm := 600\<rparr>) 0 293) \<and>
   arrangeLabelsOnSheets_rnd roundToDouble
       [(smallLabel 1)\<lparr>labelLengthMm := 10000000000000000\<rparr>,
        (smallLabel 1)\<lparr>labelLengthMm := 1\<rparr>, (smallLabel 1)\<lparr>labelLengthMm := 1\<rparr>]
       \<lparr>width = 100000000000000000, height = 300, margin = 0, gap = 0\<rparr> =
     [\<lparr>pageNumber = 1,
       labels = [placedAt ((smallLabel 1)\<lparr>labelLengthMm := 10000000000000000\<rparr>) 0 293,
                 placedAt ((smallLabel 1)\<lparr>labelLengthMm := 1\<rparr>) 10000000000000000 293,
                 placedAt ((smallLabel 1)\<lparr>labelLengthMm := 1\<rparr>) 10000000000000000 293]\<rparr>] \<and>
   \<not> footprintsDisjoint
       (placedAt ((smallLabel 1)\<lparr>labelLengthMm := 1\<rparr>) 10000000000000000 293)
       (placedAt ((smallLabel 1)\<lparr>labelLengthMm := 1\<rparr>) 10000000000000000 293) \<and>
   arrangeLabelsOnSheets_rnd roundToDouble
       [(smallLabel 1)\<lparr>labelLengthMm := roundToDouble 0.7\<rparr>,
        (smallLabel 1)\<lparr>labelLengthMm := roundToDouble 0.1\<rparr>,
        (smallLabel 1)\<lparr>labelLengthMm := roundToDouble 0.1\<rparr>] DEFAULT_SHEET =
     [\<lparr>pageNumber = 1,
       labels = [placedAt ((smallLabel 1)\<lparr>labelLengthMm := roundToDouble 0.7\<rparr>) 0 293,
                 placedAt ((smallLabel 1)\<lparr>labelLengthMm := roundToDouble 0.1\<rparr>)
                   (roundToDouble 0.7) 293,
                 placedAt ((smallLabel 1)\<lparr>labelLengthMm := roundToDouble 0.1\<rparr>)
                   (7205759403792793 / 9007199254740992) 293]\<rparr>] \<and>
   \<not> footprintsDisjoint
       (placedAt ((smallLabel 1)\<lparr>labelLengthMm := roundToDouble 0.1\<rparr>) (roundToDouble 0.7) 293)
       (placedAt ((smallLabel 1)\<lparr>labelLengthMm := roundToDouble 0.1\<rparr>)
          (7205759403792793 / 9007199254740992) 293)"
  by (simp add: pack_eval_rnd footprintsDisjoint_def roundToDouble_big roundToDouble_tenths)

subsection \<open>The benchmark scenario: labels of 20 by 7 mm on the default sheet\<close>

lemma gridInv_first:
  assumes "labelLengthMm l = 20" and "labelHeightMm l = 7"
  shows "gridInv 0 (placeLabel DEFAULT_SHEET l (initialState DEFAULT_SHEET))"
  using assms
  by (simp add: gridInv_def placeLabel_def pushPlacement_def overflowSheet_def wrapRow_def
      seedRow_def initialState_def DEFAULT_SHEET_def)

lemma div30_bound: "Suc m < 1260 \<Longrightarrow> Suc m div 30 \<le> 41"
  by (simp add: div_le_mono[of "Suc m" 1259 30, simplified])

lemma gridInv_step:
  assumes inv: "gridInv m st" and m: "Suc m < 1260"
    and l: "labelLengthMm l = 20" "labelHeightMm l = 7"
  shows "gridInv (Suc m) (placeLabel DEFAULT_SHEET l st)"
proof -
  obtain sheets cur x y rh where st: "st = (sheets, cur, x, y, rh)" by (cases st)
  from inv have s: "sheets = []" "pageNumber cur = 1" "length (labels cur) = Suc m" "rh = 7"
      "x = 20 * (real (m mod 30) + 1)" "y = 300 - 7 * real (m div 30)"
    and pos: "\<forall>k\<le>m. pl_x (labels cur ! k) = 20 * real (k mod 30) \<and>
             pl_y (labels cur ! k) = 293 - 7 * real (k div 30)"
    by (simp_all add: st gridInv_def)
  have lt: "m mod 30 < 30" by simp
  from m have "Suc m div 30 \<le> 41" by (rule div30_bound)
  then have "real (Suc m div 30) \<le> 41" by simp
  then have room: "7 * real (Suc m div 30) \<le> 293" by simp
  show ?thesis
  proof (cases "m mod 30 = 29")
    case True
    then have sm: "Suc m mod 30 = 0" "Suc m div 30 = Suc (m div 30)"
      by (simp_all add: mod_Suc div_Suc)
    with True room s pos l show ?thesis
      by (auto simp add: st gridInv_def placeLabel_def pushPlacement_def overflowSheet_def
          wrapRow_def seedRow_def DEFAULT_SHEET_def nth_append le_Suc_eq)
  next
    case False
    with lt have lt': "m mod 30 < 29" by linarith
    then have sm: "Suc m mod 30 = Suc (m mod 30)" "Suc m div 30 = m div 30"
      by (simp_all add: mod_Suc div_Suc)
    from lt' have "real (m mod 30) \<le> 28" by simp
    with sm room s pos l show ?thesis
      by (auto simp add: st gridInv_def placeLabel_def pushPlacement_def overflowSheet_def
          wrapRow_def seedRow_def DEFAULT_SHEET_def nth_append le_Suc_eq)
  qed
qed

lemma gridInv_placeAll:
  "gridInv m st \<Longrightarrow> m + length ls < 1260 \<Longrightarrow>
   \<forall>l\<in>set ls. labelLengthMm l = 20 \<and> labelHeightMm l = 7 \<Longrightarrow>
   gridInv (m + length ls) (placeAll DEFAULT_SHEET ls st)"
proof (induction ls arbitrary: m st)
  case Nil
  then show ?case by simp
next
  case (Cons l ls)
  from Cons.prems have "gridInv (Suc m) (placeLabel DEFAULT_SHEET l st)"
    by (intro gridInv_step) simp_all
  with Cons.prems have "gridInv (Suc m + length ls)
      (placeAll DEFAULT_SHEET ls (placeLabel DEFAULT_SHEET l st))"
    by (intro Cons.IH) simp_all
  then show ?case by simp
qed

lemma gridInv_all:
  assumes "ls \<noteq> []" and "length ls \<le> 1260"
    and "\<forall>l\<in>set ls. labelLengthMm l = 20 \<and> labelHeightMm l = 7"
  shows "gridInv (length ls - 1) (placeAll DEFAULT_SHEET ls (initialState DEFAULT_SHEET))"
proof -
  from assms(1) obtain l rest where ls: "ls = l # rest" by (cases ls) auto
  with assms(3) have "gridInv 0 (placeLabel DEFAULT_SHEET l (initialState DEFAULT_SHEET))"
    by (intro gridInv_first) simp_all
  with assms(2,3) have "gridInv (0 + length rest) (placeAll DEFAULT_SHEET rest
      (placeLabel DEFAULT_SHEET l (initialState DEFAULT_SHEET)))"
    by (intro gridInv_placeAll) (simp_all add: ls)
  then show ?thesis by (simp add: ls)
qed

text \<open>
  Claim C3, as the code has it. For specs that are all 20 by 7 mm, packed onto the
  default sheet (600 by 300, margin 0, gap 0), whose effective quantities (a quantity 0
  counting 1, as in C1) sum to at least 1 and at most 1260, the packer returns exactly
  one sheet, page 1, that holds every label: label \<open>k\<close> stands in column \<open>k mod 30\<close> of row
  \<open>k div 30\<close>, so a row holds 30 labels and the sheet 42 rows.
\<close>

theorem uniform_labels_fit_one_sheet:
  assumes "\<forall>s\<in>set setups. labelLengthMm s = 20 \<and> labelHeightMm s = 7"
    and "1 \<le> (\<Sum>s\<leftarrow>setups. nat (if labelQuantity s = 0 then 1 else labelQuantity s))"
    and "(\<Sum>s\<leftarrow>setups. nat (if labelQuantity s = 0 then 1 else labelQuantity s)) \<le> 1260"
  shows "\<exists>sh. arrangeLabelsOnSheets setups DEFAULT_SHEET = [sh] \<and> pageNumber sh = 1 \<and>
     length (labels sh) =
       (\<Sum>s\<leftarrow>setups. nat (if labelQuantity s = 0 then 1 else labelQuantity s)) \<and>
     (\<forall>k<length (labels sh).
        pl_x (labels sh ! k) = 20 * real (k mod 30) \<and>
        pl_y (labels sh ! k) = 293 - 7 * real (k div 30))"
proof -
  let ?ls = "expandSetups setups []"
  have len: "length ?ls =
      (\<Sum>s\<leftarrow>setups. nat (if labelQuantity s = 0 then 1 else labelQuantity s))"
    by (rule length_expandSetups)
  with assms(2) have "length ?ls \<noteq> 0" by linarith
  then have ne: "?ls \<noteq> []" by (metis list.size(3))
  moreover from len assms(3) have "length ?ls \<le> 1260" by simp
  moreover have "\<forall>l\<in>set ?ls. labelLengthMm l = 20 \<and> labelHeightMm l = 7"
    using assms(1) set_expandSetups by blast
  ultimately have inv: "gridInv (length ?ls - 1)
      (placeAll DEFAULT_SHEET ?ls (initialState DEFAULT_SHEET))"
    by (rule gridInv_all)
  obtain sheets cur x y rh where
    st: "placeAll DEFAULT_SHEET ?ls (initialState DEFAULT_SHEET) = (sheets, cur, x, y, rh)"
    by (cases "placeAll DEFAULT_SHEET ?ls (initialState DEFAULT_SHEET)")
  from ne have suc: "Suc (length ?ls - 1) = length ?ls" by (cases ?ls) simp_all
  from inv st suc have "arrangeLabelsOnSheets setups DEFAULT_SHEET = [cur]" "pageNumber cur = 1"
      "length (labels cur) = length ?ls"
      "\<forall>k<length (labels cur). pl_x (labels cur ! k) = 20 * real (k mod 30) \<and>
        pl_y (labels cur ! k) = 293 - 7 * real (k div 30)"
    by (auto simp add: gridInv_def arrangeLabelsOnSheets_def flushSheets_def)
  with len show ?thesis by auto
qed

text \<open>The scenario of the specification: three specs of 20 by 7 mm with the quantities
  400, 300 and 300. One sheet holds the 1000 labels.\<close>

theorem uniform_labels_fit_one_sheet_witness:
  "length (arrangeLabelsOnSheets [smallLabel 400, smallLabel 300, smallLabel 300]
     DEFAULT_SHEET) = 1 \<and>
   totalLabels (arrangeLabelsOnSheets [smallLabel 400, smallLabel 300, smallLabel 300]
     DEFAULT_SHEET) = 1000"
  using uniform_labels_fit_one_sheet [of "[smallLabel 400, smallLabel 300, smallLabel 300]"]
  by (auto simp add: smallLabel_def totalLabels_def)

text \<open>
  Claim C3 as the specification states it fails: the specs of quantities 1260 and 0 are
  all 20 by 7 mm and their quantities sum to 1260, yet the packer places 1261 labels
  (C1) and returns two sheets.
\<close>

theorem one_sheet_counterexample:
  "labelLengthMm (smallLabel 1260) = 20 \<and> labelHeightMm (smallLabel 1260) = 7 \<and>
   labelLengthMm (smallLabel 0) = 20 \<and> labelHeightMm (smallLabel 0) = 7 \<and>
   labelQuantity (smallLabel 1260) + labelQuantity (smallLabel 0) = 1260 \<and>
   length (arrangeLabelsOnSheets [smallLabel 1260, smallLabel 0] DEFAULT_SHEET) = 2"
proof -
  let ?ls = "replicate 1260 (smallLabel 1260)"
  have "gridInv (length ?ls - 1) (placeAll DEFAULT_SHEET ?ls (initialState DEFAULT_SHEET))"
    by (rule gridInv_all) (simp_all add: smallLabel_def)
  then have inv: "gridInv 1259 (placeAll DEFAULT_SHEET ?ls (initialState DEFAULT_SHEET))"
    by simp
  obtain sheets cur x y rh where
    st: "placeAll DEFAULT_SHEET ?ls (initialState DEFAULT_SHEET) = (sheets, cur, x, y, rh)"
    by (cases "placeAll DEFAULT_SHEET ?ls (initialState DEFAULT_SHEET)")
  have "expandSetups [smallLabel 1260, smallLabel 0] [] = ?ls @ [smallLabel 0]"
    by (simp add: expandSetups_concat smallLabel_def)
  then have "arrangeLabelsOnSheets [smallLabel 1260, smallLabel 0] DEFAULT_SHEET =
      flushSheets (placeLabel DEFAULT_SHEET (smallLabel 0) (sheets, cur, x, y, rh))"
    by (simp add: arrangeLabelsOnSheets_def placeAll_snoc st)
  moreover from inv st have "sheets = []" "length (labels cur) = 1260" "rh = 7" "x = 600" "y = 13"
    by (simp_all add: gridInv_def)
  ultimately have
    "length (arrangeLabelsOnSheets [smallLabel 1260, smallLabel 0] DEFAULT_SHEET) = 2"
    by (simp add: placeLabel_def pushPlacement_def overflowSheet_def wrapRow_def seedRow_def
        flushSheets_def DEFAULT_SHEET_def smallLabel_def)
  then show ?thesis by (simp add: smallLabel_def)
qed


section \<open>Properties of the text fitting\<close>

lemma validLine_tenLetters: "validLine tenLetters"
  by (simp add: validLine_def tenLetters_def trim_def isWhiteSpace_def)

text \<open>The estimated width has the sign of the desired height, or is zero.\<close>

lemma estimate_sign:
  assumes "signPreserving rnd"
  shows "0 \<le> dh \<Longrightarrow> 0 \<le> estimateTextWidth rnd txt dh"
    and "dh \<le> 0 \<Longrightarrow> estimateTextWidth rnd txt dh \<le> 0"
proof -
  from assms have c: "0 \<le> rnd 0.55" by (simp add: signPreserving_def)
  { assume "0 \<le> dh"
    then have "0 \<le> real (length txt) * dh" by simp
    with assms have "0 \<le> rnd (real (length txt) * dh)" by (simp add: signPreserving_def)
    with c have "0 \<le> rnd (real (length txt) * dh) * rnd 0.55" by simp
    with assms show "0 \<le> estimateTextWidth rnd txt dh"
      by (simp add: signPreserving_def estimateTextWidth_def) }
  { assume "dh \<le> 0"
    then have "real (length txt) * dh \<le> 0" by (simp add: mult_le_0_iff)
    with assms have "rnd (real (length txt) * dh) \<le> 0" by (simp add: signPreserving_def)
    with c have "rnd (real (length txt) * dh) * rnd 0.55 \<le> 0" by (simp add: mult_le_0_iff)
    with assms show "estimateTextWidth rnd txt dh \<le> 0"
      by (simp add: signPreserving_def estimateTextWidth_def) }
qed

text \<open>With an available width that is not positive, the scaled height is not positive.\<close>

lemma scaled_nonpos:
  assumes sp: "signPreserving rnd" and a: "avail \<le> 0" "avail < est" "est \<noteq> 0"
    and s: "0 \<le> dh \<longrightarrow> 0 \<le> est" "dh \<le> 0 \<longrightarrow> est \<le> 0"
  shows "rnd (dh * rnd (avail / est)) \<le> 0"
proof (cases "0 \<le> dh")
  case True
  with s a have "0 < est" by simp
  with a have "avail / est \<le> 0" by (simp add: divide_le_0_iff)
  with sp have "rnd (avail / est) \<le> 0" by (simp add: signPreserving_def)
  with True have "dh * rnd (avail / est) \<le> 0" by (simp add: mult_le_0_iff)
  with sp show ?thesis by (simp add: signPreserving_def)
next
  case False
  with s a have "est < 0" by simp
  with a have "0 \<le> avail / est" by (simp add: zero_le_divide_iff)
  with sp have "0 \<le> rnd (avail / est)" by (simp add: signPreserving_def)
  with False have "dh * rnd (avail / est) \<le> 0" by (simp add: mult_le_0_iff)
  with sp show ?thesis by (simp add: signPreserving_def)
qed

text \<open>
  Claim C4, as the code has it. The text fitting works in double arithmetic: \<open>rnd\<close> is
  the rounding to the nearest double, of which the statement uses that it keeps the
  sign. For every text, maximal width, desired height and padding of magnitude at most
  \<open>10\<^sup>3\<^sup>0\<^sup>0\<close> (the product of the text length and the desired height too), let \<open>est\<close> be
  \<open>len(text) \<times> desiredHeight \<times> 0.55\<close> and \<open>avail\<close> be \<open>maxWidth - 2 \<times> padding\<close>, each
  operation rounded. \<^verbatim>\<open>calculateFitTextHeight\<close> returns the desired height unchanged when
  \<open>est \<le> avail\<close>. Otherwise it returns \<open>max(0.5, desiredHeight \<times> (avail / est))\<close>, each
  operation rounded, when \<open>avail\<close> is positive; 0.5 when \<open>avail\<close> is not positive and the
  desired height is not 0; and \<^verbatim>\<open>NaN\<close> when the desired height is 0. The DXF path
  applies this function, with padding 2, to each line that is not blank. The PDF path
  does not call it: it keeps the height \<open>h\<close> of the line when
  \<open>len(text) \<times> h \<times> 0.5 \<le> width - 4\<close> and takes \<open>max(0.5, (width - 4) / (len(text) \<times> 0.5))\<close>
  otherwise, with the ratio 0.5 in place of 0.55.
\<close>

theorem text_fit:
  assumes "signPreserving rnd"
    and "inRange (real (length txt) * dh)" and "inRange mw" and "inRange p"
    and "inRange (real (length (lineText line)) *
           (if textSizeMm line = 0 then 2 else textSizeMm line))"
    and "inRange w"
  shows
  "(let est = rnd (rnd (real (length txt) * dh) * rnd 0.55);
        avail = rnd (mw - rnd (p * 2))
    in (est \<le> avail \<longrightarrow> calculateFitTextHeight rnd txt mw dh p = Some dh) \<and>
       (avail < est \<and> 0 < avail \<longrightarrow>
          calculateFitTextHeight rnd txt mw dh p =
            Some (max 0.5 (rnd (dh * rnd (avail / est))))) \<and>
       (avail < est \<and> avail \<le> 0 \<and> dh \<noteq> 0 \<longrightarrow>
          calculateFitTextHeight rnd txt mw dh p = Some 0.5) \<and>
       (avail < est \<and> dh = 0 \<longrightarrow> calculateFitTextHeight rnd txt mw dh p = None)) \<and>
   (validLine line \<longrightarrow>
      dxfLineHeight rnd w line =
        calculateFitTextHeight rnd (lineText line) w
          (if textSizeMm line = 0 then 2 else textSizeMm line) 2) \<and>
   (validLine line \<longrightarrow>
      pdfLineHeight rnd w line =
        (let th = (if textSizeMm line = 0 then 2 else textSizeMm line);
             est = rnd (rnd (real (length (lineText line)) * th) * 0.5);
             avail = rnd (w - rnd (2 * 2))
         in if est \<le> avail then th
            else max 0.5 (rnd (avail / rnd (real (length (lineText line)) * 0.5)))))"
proof -
  let ?est = "rnd (rnd (real (length txt) * dh) * rnd 0.55)"
  let ?avail = "rnd (mw - rnd (p * 2))"
  have est: "estimateTextWidth rnd txt dh = ?est" by (simp add: estimateTextWidth_def)
  have sg: "0 \<le> dh \<longrightarrow> 0 \<le> ?est" "dh \<le> 0 \<longrightarrow> ?est \<le> 0"
    using estimate_sign [OF assms(1), of dh "txt"] by (simp_all add: est)
  have 1: "?est \<le> ?avail \<longrightarrow> calculateFitTextHeight rnd txt mw dh p = Some dh"
    by (simp add: calculateFitTextHeight_def est)
  have 2: "?avail < ?est \<and> 0 < ?avail \<longrightarrow>
      calculateFitTextHeight rnd txt mw dh p = Some (max 0.5 (rnd (dh * rnd (?avail / ?est))))"
    by (simp add: calculateFitTextHeight_def est Let_def)
  have 3: "?avail < ?est \<and> ?avail \<le> 0 \<and> dh \<noteq> 0 \<longrightarrow>
      calculateFitTextHeight rnd txt mw dh p = Some 0.5"
  proof (intro impI, elim conjE)
    assume a: "?avail < ?est" "?avail \<le> 0" "dh \<noteq> 0"
    show "calculateFitTextHeight rnd txt mw dh p = Some 0.5"
    proof (cases "?est = 0")
      case True
      with a show ?thesis by (simp add: calculateFitTextHeight_def est)
    next
      case False
      from assms(1) a(2,1) False have "rnd (dh * rnd (?avail / ?est)) \<le> 0"
        by (rule scaled_nonpos) (rule sg)+
      with a False show ?thesis by (simp add: calculateFitTextHeight_def est Let_def max_def)
    qed
  qed
  have 4: "?avail < ?est \<and> dh = 0 \<longrightarrow> calculateFitTextHeight rnd txt mw dh p = None"
  proof (intro impI, elim conjE)
    assume a: "?avail < ?est" "dh = 0"
    have "estimateTextWidth rnd txt 0 = 0"
      by (simp add: estimateTextWidth_def signPreserving_zero [OF assms(1)])
    with a est show "calculateFitTextHeight rnd txt mw dh p = None"
      by (simp add: calculateFitTextHeight_def)
  qed
  have 5: "validLine line \<longrightarrow> dxfLineHeight rnd w line =
        calculateFitTextHeight rnd (lineText line) w
          (if textSizeMm line = 0 then 2 else textSizeMm line) 2"
    by (simp add: dxfLineHeight_def)
  have 6: "validLine line \<longrightarrow> pdfLineHeight rnd w line =
        (let th = (if textSizeMm line = 0 then 2 else textSizeMm line);
             est = rnd (rnd (real (length (lineText line)) * th) * 0.5);
             avail = rnd (w - rnd (2 * 2))
         in if est \<le> avail then th
            else max 0.5 (rnd (avail / rnd (real (length (lineText line)) * 0.5))))"
    by (simp add: pdfLineHeight_def validLine_def Let_def)
  from 1 2 3 4 5 6 show ?thesis unfolding Let_def by blast
qed

text \<open>The examples in the arithmetic of doubles: the estimated widths of three texts.\<close>

lemma estimate_LBL:
  "estimateTextWidth roundToDouble ''LBL'' 3 = 5573204538870989 / 1125899906842624"
proof -
  have a: "roundToDouble (real (length ''LBL'') * 3) = 9"
    by (simp add: roundToDouble_whole)
  have b: "roundToDouble (9 * (2476979795053773 / 4503599627370496)) =
      5573204538870989 / 1125899906842624"
    by (subst roundToDouble_at [where e = 2]) (simp_all add: roundTiesEven_def)
  show ?thesis unfolding estimateTextWidth_def Let_def roundToDouble_055 a b ..
qed

lemma estimate_tenLetters: "estimateTextWidth roundToDouble ''ABCDEFGHIJ'' 4 = 22"
proof -
  have a: "roundToDouble (real (length ''ABCDEFGHIJ'') * 4) = 40"
    by (simp add: roundToDouble_whole)
  have b: "roundToDouble (40 * (2476979795053773 / 4503599627370496)) = 22"
    by (subst roundToDouble_at [where e = 4]) (simp_all add: roundTiesEven_def)
  show ?thesis unfolding estimateTextWidth_def Let_def roundToDouble_055 a b ..
qed

lemma estimate_twentyLetters:
  "estimateTextWidth roundToDouble twentyLetters 5 = 7740561859543041 / 140737488355328"
proof -
  have a: "roundToDouble (real (length twentyLetters) * 5) = 100"
    by (simp add: roundToDouble_whole twentyLetters_def)
  have b: "roundToDouble (100 * (2476979795053773 / 4503599627370496)) =
      7740561859543041 / 140737488355328"
    by (subst roundToDouble_at [where e = 5]) (simp_all add: roundTiesEven_def)
  show ?thesis unfolding estimateTextWidth_def Let_def roundToDouble_055 a b ..
qed

text \<open>Ten letters of 4 mm on a label of 24 mm: 22 mm against 20 mm available, and the
  height becomes \<^verbatim>\<open>3.6363636363636362\<close>.\<close>

lemma fit_tenLetters:
  "calculateFitTextHeight roundToDouble ''ABCDEFGHIJ'' 24 4 2 =
     Some (8188362958855447 / 2251799813685248)"
proof -
  have a: "roundToDouble (24 - roundToDouble (2 * 2)) = 20"
    by (simp add: roundToDouble_whole)
  have b: "roundToDouble (20 / 22) = 8188362958855447 / 9007199254740992"
    by (subst roundToDouble_at [where e = "- 1"]) (simp_all add: roundTiesEven_def)
  have c: "roundToDouble (4 * (8188362958855447 / 9007199254740992)) =
      8188362958855447 / 2251799813685248"
    by (subst roundToDouble_at [where e = 1]) (simp_all add: roundTiesEven_def)
  show ?thesis
    unfolding calculateFitTextHeight_def Let_def estimate_tenLetters a b c by simp
qed

text \<open>Twenty letters of 5 mm on a label of 59 mm: the estimate is
  \<^verbatim>\<open>55.00000000000001\<close> against 55 mm available, the scale factor
  \<^verbatim>\<open>0.9999999999999999\<close> and the height \<^verbatim>\<open>4.999999999999999\<close>.\<close>

lemma fit_twentyLetters:
  "calculateFitTextHeight roundToDouble twentyLetters 59 5 2 =
     Some (5629499534213119 / 1125899906842624)"
proof -
  have a: "roundToDouble (59 - roundToDouble (2 * 2)) = 55"
    by (simp add: roundToDouble_whole)
  have b: "roundToDouble (55 / (7740561859543041 / 140737488355328)) =
      9007199254740991 / 9007199254740992"
    by (subst roundToDouble_at [where e = "- 1"]) (simp_all add: roundTiesEven_def)
  have c: "roundToDouble (5 * (9007199254740991 / 9007199254740992)) =
      5629499534213119 / 1125899906842624"
    by (subst roundToDouble_at [where e = 2]) (simp_all add: roundTiesEven_def)
  show ?thesis
    unfolding calculateFitTextHeight_def Let_def estimate_twentyLetters a b c by simp
qed

lemma pdf_tenLetters: "pdfLineHeight roundToDouble 24 tenLetters = 4"
proof -
  have a: "roundToDouble (24 - roundToDouble (2 * 2)) = 20"
    by (simp add: roundToDouble_whole)
  have b: "roundToDouble (roundToDouble (real (length (lineText tenLetters)) *
      (if textSizeMm tenLetters = 0 then 2 else textSizeMm tenLetters)) * 0.5) = 20"
    by (simp add: tenLetters_def roundToDouble_whole)
  show ?thesis unfolding pdfLineHeight_def Let_def a b by (simp add: tenLetters_def)
qed

text \<open>
  A text that fits; ten letters of 4 mm on a label of 24 mm, shrunk in the DXF and kept
  in the PDF; an empty text with a negative desired height on 3 mm, where the estimate
  is \<^verbatim>\<open>-0\<close> and the result 0.5; and a desired height of 0 on 3 mm, where the result is
  \<^verbatim>\<open>NaN\<close>.
\<close>

theorem text_fit_witness:
  "calculateFitTextHeight roundToDouble ''LBL'' 20 3 2 = Some 3 \<and>
   calculateFitTextHeight roundToDouble ''ABCDEFGHIJ'' 24 4 2 =
     Some (8188362958855447 / 2251799813685248) \<and>
   calculateFitTextHeight roundToDouble [] 3 (- 4) 2 = Some 0.5 \<and>
   calculateFitTextHeight roundToDouble ''LBL'' 3 0 2 = None \<and>
   dxfLineHeight roundToDouble 24 tenLetters = Some (8188362958855447 / 2251799813685248) \<and>
   pdfLineHeight roundToDouble 24 tenLetters = 4"
proof -
  note sp = signPreserving_roundToDouble
  have r: "inRange (real (length (lineText tenLetters)) *
      (if textSizeMm tenLetters = 0 then 2 else textSizeMm tenLetters))" "inRange 24"
    by (simp_all add: inRange_def tenLetters_def)
  have a16: "roundToDouble (20 - roundToDouble (2 * 2)) = 16"
    and a20: "roundToDouble (24 - roundToDouble (2 * 2)) = 20"
    and am1: "roundToDouble (3 - roundToDouble (2 * 2)) = - 1"
    by (simp_all add: roundToDouble_whole)
  have e1: "roundToDouble (roundToDouble (real (length ''LBL'') * 3) * roundToDouble 0.55) =
      5573204538870989 / 1125899906842624"
    using estimate_LBL unfolding estimateTextWidth_def Let_def .
  have e2: "roundToDouble (roundToDouble (real (length ''ABCDEFGHIJ'') * 4) *
      roundToDouble 0.55) = 22"
    using estimate_tenLetters unfolding estimateTextWidth_def Let_def .
  have e3: "roundToDouble (roundToDouble (real (length ([]::string)) * - 4) *
      roundToDouble 0.55) = 0"
    and e4: "roundToDouble (roundToDouble (real (length ''LBL'') * 0) * roundToDouble 0.55) = 0"
    by (simp_all add: roundToDouble_def)
  have s2: "roundToDouble (20 / 22) = 8188362958855447 / 9007199254740992"
    by (subst roundToDouble_at [where e = "- 1"]) (simp_all add: roundTiesEven_def)
  have h2: "roundToDouble (4 * (8188362958855447 / 9007199254740992)) =
      8188362958855447 / 2251799813685248"
    by (subst roundToDouble_at [where e = 1]) (simp_all add: roundTiesEven_def)
  have w1: "calculateFitTextHeight roundToDouble ''LBL'' 20 3 2 = Some 3"
    using text_fit [OF sp _ _ _ r, of "''LBL''" 3 20 2]
    unfolding Let_def e1 a16 by (simp add: inRange_def)
  have w2: "calculateFitTextHeight roundToDouble ''ABCDEFGHIJ'' 24 4 2 =
      Some (8188362958855447 / 2251799813685248)"
    using text_fit [OF sp _ _ _ r, of "''ABCDEFGHIJ''" 4 24 2]
    unfolding Let_def e2 a20 s2 h2 by (simp add: inRange_def)
  have w3: "calculateFitTextHeight roundToDouble [] 3 (- 4) 2 = Some 0.5"
    using text_fit [OF sp _ _ _ r, of "[]" "- 4" 3 2]
    unfolding Let_def e3 am1 by (simp add: inRange_def)
  have w4: "calculateFitTextHeight roundToDouble ''LBL'' 3 0 2 = None"
    using text_fit [OF sp _ _ _ r, of "''LBL''" 0 3 2]
    unfolding Let_def e4 am1 by (simp add: inRange_def)
  have w5: "dxfLineHeight roundToDouble 24 tenLetters =
      Some (8188362958855447 / 2251799813685248)"
    using text_fit [OF sp _ _ _ r, of "''LBL''" 0 3 2] validLine_tenLetters w2
    by (simp add: inRange_def tenLetters_def)
  have p1: "roundToDouble (roundToDouble (real (length (lineText tenLetters)) *
      (if textSizeMm tenLetters = 0 then 2 else textSizeMm tenLetters)) * 0.5) = 20"
    by (simp add: tenLetters_def roundToDouble_whole)
  have w6: "pdfLineHeight roundToDouble 24 tenLetters = 4"
    using text_fit [OF sp _ _ _ r, of "''LBL''" 0 3 2] validLine_tenLetters
    unfolding Let_def p1 a20 by (simp add: inRange_def tenLetters_def)
  from w1 w2 w3 w4 w5 w6 show ?thesis by blast
qed

text \<open>
  Claim C4 as the specification states it fails, in two ways. The PDF path does not use
  the heuristic with the constant 0.55: on a label of 24 mm the line of ten letters at
  4 mm is shrunk to \<^verbatim>\<open>3.6363636363636362\<close> mm in the DXF and keeps its 4 mm in the PDF.
  And the comparison is one of doubles: for twenty letters of 5 mm on a label of 59 mm,
  \<open>len(text) \<times> desiredHeight \<times> 0.55 = 55 \<le> 55 = maxWidth - 2 \<times> padding\<close> holds of the
  numbers, yet the function does not return the desired height unchanged but
  \<^verbatim>\<open>4.999999999999999\<close> (the double for \<^verbatim>\<open>0.55\<close> lies above 0.55).
\<close>

theorem text_fit_counterexample:
  "validLine tenLetters \<and>
   dxfLineHeight roundToDouble 24 tenLetters = Some (8188362958855447 / 2251799813685248) \<and>
   pdfLineHeight roundToDouble 24 tenLetters = 4 \<and>
   real (length twentyLetters) * 5 * 0.55 \<le> 59 - 2 * 2 \<and>
   calculateFitTextHeight roundToDouble twentyLetters 59 5 2 =
     Some (5629499534213119 / 1125899906842624) \<and>
   (5629499534213119 / 1125899906842624 :: real) < 5"
proof -
  have "dxfLineHeight roundToDouble 24 tenLetters =
      Some (8188362958855447 / 2251799813685248)"
    using fit_tenLetters by (simp add: dxfLineHeight_def tenLetters_def)
  moreover have "real (length twentyLetters) * 5 * 0.55 \<le> 59 - 2 * 2"
    by (simp add: twentyLetters_def)
  ultimately show ?thesis
    using validLine_tenLetters pdf_tenLetters fit_twentyLetters by simp
qed


section \<open>Properties of the hole patterns\<close>






section \<open>Properties of the path parser and the flattener\<close>

subsection \<open>Tokens\<close>

lemma cmd_boundary:
  assumes "rest = [] \<or> isCommandLetter (hd rest)"
  shows "takeWhile (\<lambda>ch. \<not> isCommandLetter ch) (cs @ rest) =
           takeWhile (\<lambda>ch. \<not> isCommandLetter ch) cs"
    and "dropWhile (\<lambda>ch. \<not> isCommandLetter ch) (cs @ rest) =
           dropWhile (\<lambda>ch. \<not> isCommandLetter ch) cs @ rest"
  using assms
  by (induction cs) (auto simp add: takeWhile_eq_Nil_iff dropWhile_eq_self_iff neq_Nil_conv)

lemma cmd_boundary_here:
  assumes "rest = [] \<or> isCommandLetter (hd rest)"
  shows "takeWhile (\<lambda>ch. \<not> isCommandLetter ch) rest = []"
    and "dropWhile (\<lambda>ch. \<not> isCommandLetter ch) rest = rest"
  using assms by (cases rest; simp)+

text \<open>Where a command letter (or the end) follows, the parser reads the two parts of the
  string apart.\<close>

lemma parseSvgPath_append:
  assumes "rest = [] \<or> isCommandLetter (hd rest)"
  shows "parseSvgPath toNumber (pre @ rest) =
     parseSvgPath toNumber pre @ parseSvgPath toNumber rest"
  using assms
proof (induction toNumber pre rule: parseSvgPath.induct)
  case (1 toNumber)
  then show ?case by simp
next
  case (2 toNumber c cs)
  then show ?case by (simp add: cmd_boundary)
qed

lemma parseSvgPath_command:
  assumes "isCommandLetter c" and "\<forall>ch\<in>set run. \<not> isCommandLetter ch"
    and "rest = [] \<or> isCommandLetter (hd rest)"
  shows "parseSvgPath toNumber (c # run @ rest) =
     commandsFor c (parseArgs toNumber run) @ parseSvgPath toNumber rest"
proof -
  from assms(2,3) have "takeWhile (\<lambda>ch. \<not> isCommandLetter ch) (run @ rest) = run"
      "dropWhile (\<lambda>ch. \<not> isCommandLetter ch) (run @ rest) = rest"
    by (simp_all add: cmd_boundary_here)
  with assms(1) show ?thesis by simp
qed

lemma unsupported_letter:
  assumes "c \<in> set ''SsQqTtAa''"
  shows "isCommandLetter c" and "commandsFor c args = []"
proof -
  from assms have "c = CHR ''S'' \<or> c = CHR ''s'' \<or> c = CHR ''Q'' \<or> c = CHR ''q'' \<or>
      c = CHR ''T'' \<or> c = CHR ''t'' \<or> c = CHR ''A'' \<or> c = CHR ''a''"
    by simp
  then show "isCommandLetter c" and "commandsFor c args = []"
    by (elim disjE; simp add: isCommandLetter_def commandsFor_def)+
qed

text \<open>The equations that evaluate the parser on a concrete path.\<close>

lemmas path_eval = parseArgs_def trim_def isWhiteSpace_def isSeparator_def isCommandLetter_def
  commandsFor_def pointCommands.simps curveCommands.simps arg_def command_def
  numberOfDigits_def digitValue_def

text \<open>
  Claim C6. The command letters are those of the tokenizer's regular expression; the
  ones outside the supported set are \<^verbatim>\<open>S s Q q T t A a\<close>. For every path string that holds
  such a letter \<open>c\<close>, followed by its argument run \<open>run\<close> (the characters up to the next
  command letter or the end), the parser returns, for every reading of the numbers, the
  commands it returns for the string without \<open>c\<close> and \<open>run\<close>. The parser is a total
  function: it has no error to raise. (A letter that is no command letter, such as
  \<^verbatim>\<open>X\<close>, is not a token of its own: it is part of the argument run it stands in.)
\<close>

theorem unsupported_command_ignored:
  assumes "c \<in> set ''SsQqTtAa''"
    and "\<forall>ch\<in>set run. \<not> isCommandLetter ch"
    and "rest = [] \<or> isCommandLetter (hd rest)"
  shows "parseSvgPath toNumber (pre @ c # run @ rest) = parseSvgPath toNumber (pre @ rest)"
proof -
  from assms(1) have c: "isCommandLetter c" "commandsFor c (parseArgs toNumber run) = []"
    by (simp_all add: unsupported_letter)
  have "parseSvgPath toNumber (pre @ c # run @ rest) =
      parseSvgPath toNumber pre @ parseSvgPath toNumber (c # run @ rest)"
    using c(1) by (intro parseSvgPath_append) simp
  also have "parseSvgPath toNumber (c # run @ rest) = parseSvgPath toNumber rest"
    by (simp only: parseSvgPath_command [OF c(1) assms(2,3)] c(2) append_Nil)
  also have "parseSvgPath toNumber pre @ parseSvgPath toNumber rest =
      parseSvgPath toNumber (pre @ rest)"
    using assms(3) by (simp add: parseSvgPath_append)
  finally show ?thesis .
qed

text \<open>A smooth-curve command between a move and a line.\<close>

theorem unsupported_command_ignored_witness:
  "parseSvgPath numberOfDigits ''M0,0 S1,2,3,4 L5,5'' =
     parseSvgPath numberOfDigits ''M0,0 L5,5'' \<and>
   parseSvgPath numberOfDigits ''M0,0 L5,5'' =
     [(command CHR ''M'')\<lparr>cmd_x := Num 0, cmd_y := Num 0\<rparr>,
      (command CHR ''L'')\<lparr>cmd_x := Num 5, cmd_y := Num 5\<rparr>]"
proof -
  have "parseSvgPath numberOfDigits (''M0,0 '' @ CHR ''S'' # ''1,2,3,4 '' @ ''L5,5'') =
      parseSvgPath numberOfDigits (''M0,0 '' @ ''L5,5'')"
    by (rule unsupported_command_ignored) (simp_all add: isCommandLetter_def)
  moreover have "parseSvgPath numberOfDigits ''M0,0 L5,5'' =
     [(command CHR ''M'')\<lparr>cmd_x := Num 0, cmd_y := Num 0\<rparr>,
      (command CHR ''L'')\<lparr>cmd_x := Num 5, cmd_y := Num 5\<rparr>]"
    by (simp add: path_eval)
  ultimately show ?thesis by simp
qed

text \<open>The remark of C6 on a concrete path: \<^verbatim>\<open>X5\<close> is read as a third argument of the
  move, which \<^verbatim>\<open>Number\<close> turns into \<open>NaN\<close>.\<close>

lemma letter_outside_the_alphabet:
  "parseSvgPath numberOfDigits ''M0,0 X5 L1,1'' =
     [(command CHR ''M'')\<lparr>cmd_x := Num 0, cmd_y := Num 0\<rparr>,
      (command CHR ''M'')\<lparr>cmd_x := NaN, cmd_y := Undefined\<rparr>,
      (command CHR ''L'')\<lparr>cmd_x := Num 1, cmd_y := Num 1\<rparr>]"
  by (simp add: path_eval)

subsection \<open>The closed triangle\<close>



subsection \<open>Sampling a curve\<close>









section \<open>Properties of the export file names\<close>

subsection \<open>Page numbers\<close>






subsection \<open>Groups and keys\<close>












subsection \<open>The names\<close>





end
